theory Spec2Isabelle
  imports Main
begin

section \<open>Python values\<close>

text \<open>
  The values that \<open>json.loads\<close> produces. A \<open>str\<close> of the hub is a \<open>string\<close>, its
  characters the code points below 256: the hub compares strings with ASCII literals,
  appends them to ASCII prefixes and hands the result to the channel layer as the name of
  a group. A \<open>float\<close> is carried by the text Python prints for it (\<open>repr\<close>), which is all
  the hub can observe of it. A \<open>dict\<close> is an association list in insertion order; lookup takes the first entry
  of a key.
\<close>

datatype json =
    JNull
  | JBool bool
  | JInt int
  | JFloat string
  | JStr string
  | JArr "json list"
  | JObj "(string \<times> json) list"

datatype py_error =
    AttributeError
  | TypeError
  | KeyError string
  | ValueError
  | JSONDecodeError
  | UnicodeEncodeError
  | UnicodeDecodeError
  | BinasciiError
  | DoesNotExist

text \<open>Sequencing of steps that may raise: the first exception ends the method.\<close>

definition and_then :: "py_error + 'a \<Rightarrow> ('a \<Rightarrow> py_error + 'b) \<Rightarrow> py_error + 'b" where
  "and_then r f = (case r of Inl e \<Rightarrow> Inl e | Inr x \<Rightarrow> f x)"

text \<open>\<open>x.get(k, d)\<close>: only a \<open>dict\<close> has the method.\<close>

definition py_get :: "json \<Rightarrow> string \<Rightarrow> json \<Rightarrow> py_error + json" where
  "py_get x k d =
     (case x of
        JObj kvs \<Rightarrow> Inr (case map_of kvs k of Some v \<Rightarrow> v | None \<Rightarrow> d)
      | _ \<Rightarrow> Inl AttributeError)"

text \<open>\<open>x[k]\<close> for a string key \<open>k\<close>.\<close>

definition py_getitem :: "json \<Rightarrow> string \<Rightarrow> py_error + json" where
  "py_getitem x k =
     (case x of
        JObj kvs \<Rightarrow> (case map_of kvs k of Some v \<Rightarrow> Inr v | None \<Rightarrow> Inl (KeyError k))
      | _ \<Rightarrow> Inl TypeError)"

text \<open>\<open>d[k] = v\<close> on a \<open>dict\<close>: an existing key keeps its place, a new one goes last.\<close>

fun dict_set :: "(string \<times> json) list \<Rightarrow> string \<Rightarrow> json \<Rightarrow> (string \<times> json) list" where
  "dict_set [] k v = [(k, v)]"
| "dict_set ((k', v') # kvs) k v =
     (if k' = k then (k, v) # kvs else (k', v') # dict_set kvs k v)"

definition py_setitem :: "json \<Rightarrow> string \<Rightarrow> json \<Rightarrow> py_error + json" where
  "py_setitem x k v =
     (case x of JObj kvs \<Rightarrow> Inr (JObj (dict_set kvs k v)) | _ \<Rightarrow> Inl TypeError)"

text \<open>Truth value of an object, as \<open>if x:\<close> tests it.\<close>

fun py_truthy :: "json \<Rightarrow> bool" where
  "py_truthy JNull = False"
| "py_truthy (JBool b) = b"
| "py_truthy (JInt i) = (i \<noteq> 0)"
| "py_truthy (JFloat r) = (r \<noteq> ''0.0'' \<and> r \<noteq> ''-0.0'')"
| "py_truthy (JStr s) = (s \<noteq> [])"
| "py_truthy (JArr xs) = (xs \<noteq> [])"
| "py_truthy (JObj kvs) = (kvs \<noteq> [])"

text \<open>\<open>str(n)\<close> for an \<open>int\<close>: decimal digits, a minus sign for a negative number.\<close>

fun show_nat :: "nat \<Rightarrow> string" where
  "show_nat n =
     (if n < 10 then [''0123456789'' ! n]
      else show_nat (n div 10) @ [''0123456789'' ! (n mod 10)])"

declare show_nat.simps [simp del]

definition show_int :: "int \<Rightarrow> string" where
  "show_int i = (if i < 0 then CHR ''-'' # show_nat (nat (- i)) else show_nat (nat i))"

text \<open>
  What an f-string puts for \<open>{v}\<close>, that is \<open>str(v)\<close>. For a \<open>list\<close> or a \<open>dict\<close> it is
  Python's \<open>repr\<close>, whose quoting of strings follows the Unicode database; that part is
  the parameter \<open>rp\<close>.
\<close>

definition py_str :: "(json \<Rightarrow> string) \<Rightarrow> json \<Rightarrow> string" where
  "py_str rp v =
     (case v of
        JNull \<Rightarrow> ''None''
      | JBool b \<Rightarrow> (if b then ''True'' else ''False'')
      | JInt i \<Rightarrow> show_int i
      | JFloat r \<Rightarrow> r
      | JStr s \<Rightarrow> s
      | _ \<Rightarrow> rp v)"

section \<open>The channel layer\<close>

text \<open>
  The channel layer is a library object. Of it the consumer uses \<open>group_add\<close>,
  \<open>group_discard\<close> and \<open>group_send\<close>: a group is the set of channel names that joined
  it, and \<open>group_send\<close> puts the message into the queue of every channel that is a member
  at that moment. \<open>sent\<close> keeps the broadcasts in order, \<open>inbox\<close> the queue of each
  channel. \<open>wire\<close> is not the layer's: it holds, for each connection, the frames its
  consumer has written to the socket with \<open>self.send\<close>.
\<close>

record hub =
  groups :: "string \<Rightarrow> string set"
  sent :: "(string \<times> json) list"
  inbox :: "string \<Rightarrow> json list"
  wire :: "string \<Rightarrow> json list"

definition empty_hub :: hub where
  "empty_hub = \<lparr>groups = (\<lambda>_. {}), sent = [], inbox = (\<lambda>_. []), wire = (\<lambda>_. [])\<rparr>"

text \<open>
  Each of the three methods first checks the name of the group and raises \<open>TypeError\<close>
  unless the name is a string of fewer than 100 characters that matches the pattern
  \<open>^[a-zA-Z\d\-_.]+$\<close>. Among the code points below 256 the class of the pattern
  holds the ASCII letters and digits, hyphen, underscore and period; \<open>$\<close>, as Python reads
  it, matches at the end of the string and also before a newline that ends it. The
  channel name a consumer passes is the one the layer gave it, which passes the layer's
  check of channel names.
\<close>

definition group_name_char :: "char \<Rightarrow> bool" where
  "group_name_char c \<longleftrightarrow>
     c \<in> set ''abcdefghijklmnopqrstuvwxyzABCDEFGHIJKLMNOPQRSTUVWXYZ0123456789-_.''"

definition valid_group_name :: "string \<Rightarrow> bool" where
  "valid_group_name name \<longleftrightarrow>
     length name < 100
     \<and> (let body = (if name \<noteq> [] \<and> last name = CHR 0x0A then butlast name else name)
        in body \<noteq> [] \<and> list_all group_name_char body)"

text \<open>What the three methods do to the hub once the name has passed.\<close>

definition join :: "hub \<Rightarrow> string \<Rightarrow> string \<Rightarrow> hub" where
  "join h g c = h\<lparr>groups := (groups h)(g := insert c (groups h g))\<rparr>"

definition leave :: "hub \<Rightarrow> string \<Rightarrow> string \<Rightarrow> hub" where
  "leave h g c = h\<lparr>groups := (groups h)(g := groups h g - {c})\<rparr>"

definition broadcast :: "hub \<Rightarrow> string \<Rightarrow> json \<Rightarrow> hub" where
  "broadcast h g m =
     h\<lparr>sent := sent h @ [(g, m)],
       inbox := (\<lambda>c. if c \<in> groups h g then inbox h c @ [m] else inbox h c)\<rparr>"

definition group_add :: "hub \<Rightarrow> string \<Rightarrow> string \<Rightarrow> py_error + hub" where
  "group_add h g c = (if valid_group_name g then Inr (join h g c) else Inl TypeError)"

definition group_discard :: "hub \<Rightarrow> string \<Rightarrow> string \<Rightarrow> py_error + hub" where
  "group_discard h g c = (if valid_group_name g then Inr (leave h g c) else Inl TypeError)"

definition group_send :: "hub \<Rightarrow> string \<Rightarrow> json \<Rightarrow> py_error + hub" where
  "group_send h g m = (if valid_group_name g then Inr (broadcast h g m) else Inl TypeError)"

section \<open>ChatConsumer\<close>

datatype scope_user = AnonymousUser | User int

text \<open>
  One consumer instance. \<open>scope_user\<close> and \<open>url_kwargs\<close> are \<open>scope["user"]\<close> and
  \<open>scope["url_route"]["kwargs"]\<close>; \<open>user_id\<close>, \<open>chat_id\<close> and \<open>chat_group_name\<close> are the
  attributes \<open>connect\<close> sets, \<open>None\<close> while the attribute does not exist.
\<close>

record consumer =
  channel_name :: string
  scope_user :: scope_user
  url_kwargs :: "(string \<times> json) list"
  accepted :: bool
  user_id :: "json option"
  chat_id :: "json option"
  chat_group_name :: "string option"

definition new_consumer :: "string \<Rightarrow> scope_user \<Rightarrow> (string \<times> json) list \<Rightarrow> consumer" where
  "new_consumer ch u kw =
     \<lparr>channel_name = ch, scope_user = u, url_kwargs = kw, accepted = False,
      user_id = None, chat_id = None, chat_group_name = None\<rparr>"

text \<open>What a method leaves behind: the state when it returned, or when it raised.\<close>

datatype 'a outcome = Returned 'a | Raised py_error 'a

fun state_of :: "'a outcome \<Rightarrow> 'a" where
  "state_of (Returned s) = s"
| "state_of (Raised e s) = s"

definition connect :: "(json \<Rightarrow> string) \<Rightarrow> consumer \<Rightarrow> hub \<Rightarrow> (consumer \<times> hub) outcome" where
  "connect rp self h =
     (let self1 = self\<lparr>accepted := True\<rparr>;
          self2 = self1\<lparr>user_id :=
                    Some (case scope_user self1 of User i \<Rightarrow> JInt i | AnonymousUser \<Rightarrow> JNull)\<rparr>
      in case map_of (url_kwargs self2) ''chat_id'' of
           None \<Rightarrow> Raised (KeyError ''chat_id'') (self2, h)
         | Some cid \<Rightarrow>
             (let self3 = self2\<lparr>chat_id := Some cid\<rparr>
              in if (case user_id self3 of Some uid \<Rightarrow> py_truthy uid | None \<Rightarrow> False)
                    \<and> py_truthy cid
                 then (let name = ''chat_'' @ py_str rp cid;
                           self4 = self3\<lparr>chat_group_name := Some name\<rparr>
                       in case group_add h name (channel_name self4) of
                            Inl e \<Rightarrow> Raised e (self4, h)
                          | Inr h' \<Rightarrow> Returned (self4, h'))
                 else Returned (self3, h)))"

definition disconnect :: "(json \<Rightarrow> string) \<Rightarrow> consumer \<Rightarrow> hub \<Rightarrow> int \<Rightarrow> (consumer \<times> hub) outcome" where
  "disconnect rp self h close_code =
     (case chat_id self of
        None \<Rightarrow> Raised AttributeError (self, h)
      | Some cid \<Rightarrow>
          (if py_truthy cid
           then (case group_discard h (''chat_'' @ py_str rp cid) (channel_name self) of
                   Inl e \<Rightarrow> Raised e (self, h)
                 | Inr h' \<Rightarrow> Returned (self, h'))
           else Returned (self, h)))"

text \<open>
  \<open>receive\<close> after \<open>json.loads\<close>. Every branch reads the payload before its one
  \<open>group_send\<close>, which is its last step, so an exception leaves the hub as it was.
\<close>

definition receive_data :: "(json \<Rightarrow> string) \<Rightarrow> consumer \<Rightarrow> hub \<Rightarrow> json \<Rightarrow> py_error + hub" where
  "receive_data rp self h data =
     and_then (py_get data ''event'' JNull) (\<lambda>event_type.
     and_then (py_get data ''payload'' JNull) (\<lambda>payload.
       if event_type = JStr ''start_chat'' then
         and_then (py_get payload ''recipient_id'' JNull) (\<lambda>rid.
         and_then (py_get payload ''chat'' JNull) (\<lambda>chat.
           group_send h (''user_'' @ py_str rp rid)
                  (JObj [(''type'', JStr ''chat_started''), (''chat'', chat)])))
       else if event_type = JStr ''new_message'' then
         and_then (py_get payload ''message'' (JObj [])) (\<lambda>message_data.
         and_then (py_get payload ''message'' (JObj [])) (\<lambda>m.
         and_then (py_get m ''content'' (JStr ''No content'')) (\<lambda>content.
         and_then (py_setitem message_data ''content'' content) (\<lambda>message_data'.
         and_then (py_get payload ''chat_id'' JNull) (\<lambda>cid.
           group_send h (''chat_'' @ py_str rp cid)
                  (JObj [(''type'', JStr ''new_message''), (''message'', message_data')]))))))
       else if event_type = JStr ''update_profile'' then
         and_then (py_get payload ''profile'' JNull) (\<lambda>profile.
           group_send h ''online_users''
                  (JObj [(''type'', JStr ''profile_updated''), (''profile'', profile)]))
       else if event_type = JStr ''delete_chat'' then
         and_then (py_get payload ''chat_id'' JNull) (\<lambda>cid.
         and_then (py_get payload ''chat_id'' JNull) (\<lambda>cid'.
           group_send h (''chat_'' @ py_str rp cid)
                  (JObj [(''type'', JStr ''chat_deleted''), (''chat_id'', cid')])))
       else if event_type = JStr ''typing_indicator'' then
         and_then (py_get payload ''recipient_id'' JNull) (\<lambda>rid.
         and_then (py_get payload ''user_id'' JNull) (\<lambda>uid.
           group_send h (''user_'' @ py_str rp rid)
                  (JObj [(''type'', JStr ''user_typing''), (''user_id'', uid)])))
       else if event_type = JStr ''user_online'' then
         and_then (py_get payload ''user_id'' JNull) (\<lambda>uid.
           group_send h ''online_users''
                  (JObj [(''type'', JStr ''user_online''), (''user_id'', uid)]))
       else if event_type = JStr ''user_offline'' then
         and_then (py_get payload ''user_id'' JNull) (\<lambda>uid.
           group_send h ''online_users''
                  (JObj [(''type'', JStr ''user_offline''), (''user_id'', uid)]))
       else Inr h))"

text \<open>
  \<open>receive\<close>: \<open>loads\<close> is \<open>json.loads\<close>, which raises on text that is not JSON.
\<close>

definition receive ::
  "(string \<Rightarrow> py_error + json) \<Rightarrow> (json \<Rightarrow> string) \<Rightarrow> consumer \<Rightarrow> hub \<Rightarrow> string \<Rightarrow> py_error + hub" where
  "receive loads rp self h text_data =
     (case loads text_data of Inl e \<Rightarrow> Inl e | Inr data \<Rightarrow> receive_data rp self h data)"

subsection \<open>Handlers of channel-layer messages\<close>

text \<open>
  Each handler builds the frame it gives to \<open>json.dumps\<close> and \<open>self.send\<close>. The entries of
  a dict display are evaluated left to right, so the first missing key is the one that
  raises.
\<close>

definition py_getitem2 :: "json \<Rightarrow> string \<Rightarrow> string \<Rightarrow> py_error + json" where
  "py_getitem2 x k1 k2 = and_then (py_getitem x k1) (\<lambda>y. py_getitem y k2)"

definition py_getitem3 :: "json \<Rightarrow> string \<Rightarrow> string \<Rightarrow> string \<Rightarrow> py_error + json" where
  "py_getitem3 x k1 k2 k3 = and_then (py_getitem2 x k1 k2) (\<lambda>y. py_getitem y k3)"

definition chat_started :: "json \<Rightarrow> py_error + json" where
  "chat_started event =
     and_then (py_getitem event ''chat'') (\<lambda>chat.
       Inr (JObj [(''event'', JStr ''chat_started''), (''data'', chat)]))"

definition new_message :: "json \<Rightarrow> py_error + json" where
  "new_message event =
     and_then (py_getitem2 event ''message'' ''id'') (\<lambda>mid.
     and_then (py_getitem3 event ''message'' ''sender'' ''id'') (\<lambda>sid.
     and_then (py_getitem3 event ''message'' ''sender'' ''username'') (\<lambda>uname.
     and_then (py_getitem2 event ''message'' ''content'') (\<lambda>content.
     and_then (py_getitem2 event ''message'' ''mediaType'') (\<lambda>media.
     and_then (py_getitem2 event ''message'' ''timestamp'') (\<lambda>ts.
       Inr (JObj [(''event'', JStr ''new_message''),
                  (''payload'', JObj [(''message'', JObj
                     [(''id'', mid),
                      (''sender'', JObj [(''id'', sid), (''username'', uname)]),
                      (''content'', content),
                      (''mediaType'', media),
                      (''timestamp'', ts)])])])))))))"

definition profile_updated :: "json \<Rightarrow> py_error + json" where
  "profile_updated event =
     and_then (py_getitem event ''profile'') (\<lambda>profile.
       Inr (JObj [(''event'', JStr ''profile_updated''), (''data'', profile)]))"

definition chat_deleted :: "json \<Rightarrow> py_error + json" where
  "chat_deleted event =
     and_then (py_getitem event ''chat_id'') (\<lambda>cid.
       Inr (JObj [(''event'', JStr ''chat_deleted''), (''data'', JObj [(''chat_id'', cid)])]))"

definition user_typing :: "json \<Rightarrow> py_error + json" where
  "user_typing event =
     and_then (py_getitem event ''user_id'') (\<lambda>uid.
       Inr (JObj [(''event'', JStr ''user_typing''), (''data'', JObj [(''user_id'', uid)])]))"

definition user_online :: "json \<Rightarrow> py_error + json" where
  "user_online event =
     and_then (py_getitem event ''user_id'') (\<lambda>uid.
       Inr (JObj [(''event'', JStr ''user_online''), (''data'', JObj [(''user_id'', uid)])]))"

definition user_offline :: "json \<Rightarrow> py_error + json" where
  "user_offline event =
     and_then (py_getitem event ''user_id'') (\<lambda>uid.
       Inr (JObj [(''event'', JStr ''user_offline''), (''data'', JObj [(''user_id'', uid)])]))"

text \<open>
  The consumer's dispatch of a message taken from its channel: the handler is the method
  named by the message's \<open>type\<close>. \<open>receive\<close> sends the seven types below and no other; for
  a type without a handler the library raises \<open>ValueError\<close>.
\<close>

definition dispatch :: "json \<Rightarrow> py_error + json" where
  "dispatch message =
     and_then (py_getitem message ''type'') (\<lambda>t.
       if t = JStr ''chat_started'' then chat_started message
       else if t = JStr ''new_message'' then new_message message
       else if t = JStr ''profile_updated'' then profile_updated message
       else if t = JStr ''chat_deleted'' then chat_deleted message
       else if t = JStr ''user_typing'' then user_typing message
       else if t = JStr ''user_online'' then user_online message
       else if t = JStr ''user_offline'' then user_offline message
       else Inl ValueError)"

text \<open>
  One turn of the consumer behind channel \<open>ch\<close>: it takes the oldest message of its queue
  and runs the handler, which writes one frame to the connection or raises.
\<close>

definition deliver :: "hub \<Rightarrow> string \<Rightarrow> hub outcome" where
  "deliver h ch =
     (case inbox h ch of
        [] \<Rightarrow> Returned h
      | m # ms \<Rightarrow>
          (let h1 = h\<lparr>inbox := (inbox h)(ch := ms)\<rparr>
           in case dispatch m of
                Inl e \<Rightarrow> Raised e h1
              | Inr frame \<Rightarrow> Returned (h1\<lparr>wire := (wire h1)(ch := wire h1 ch @ [frame])\<rparr>)))"

section \<open>JWTAuthMiddleware\<close>

text \<open>
  \<open>jwt.decode\<close> with the server's key is a parameter: it returns the claims of the token
  or raises one of the two exceptions the middleware catches. \<open>User.objects.aget\<close> is a
  parameter too: the row, \<open>DoesNotExist\<close>, or another exception (an id that is no number),
  which \<open>get_user\<close> does not catch.
\<close>

datatype jwt_result = Decoded "(string \<times> json) list" | ExpiredSignatureError | InvalidTokenError

datatype aget_result = Row int | NoRow | AgetRaises py_error

definition get_user :: "(json \<Rightarrow> aget_result) \<Rightarrow> json \<Rightarrow> py_error + scope_user option" where
  "get_user aget uid =
     (case aget uid of
        Row i \<Rightarrow> Inr (Some (User i))
      | NoRow \<Rightarrow> Inr None
      | AgetRaises e \<Rightarrow> Inl e)"

text \<open>
  The middleware's part of \<open>__call__\<close>: from the \<open>token\<close> of the query string (\<open>None\<close> when
  there is none) to \<open>scope["user"]\<close>.
\<close>

definition jwt_auth ::
  "(string \<Rightarrow> jwt_result) \<Rightarrow> (json \<Rightarrow> aget_result) \<Rightarrow> string option \<Rightarrow> py_error + scope_user" where
  "jwt_auth jwt_decode aget token =
     (case token of
        None \<Rightarrow> Inr AnonymousUser
      | Some t \<Rightarrow>
          if t \<noteq> [] then
            (case jwt_decode t of
               Decoded decoded_data \<Rightarrow>
                 (let uid = (case map_of decoded_data ''user_id'' of Some v \<Rightarrow> v | None \<Rightarrow> JNull)
                  in if py_truthy uid then
                       and_then (get_user aget uid) (\<lambda>user.
                         Inr (case user of Some u \<Rightarrow> u | None \<Rightarrow> AnonymousUser))
                     else Inr AnonymousUser)
             | ExpiredSignatureError \<Rightarrow> Inr AnonymousUser
             | InvalidTokenError \<Rightarrow> Inr AnonymousUser)
          else Inr AnonymousUser)"

text \<open>
  A connection attempt: the middleware fills \<open>scope["user"]\<close>, then the consumer for the
  new channel runs \<open>connect\<close>. An exception of the middleware ends the attempt before
  the consumer exists.
\<close>

definition on_connect ::
  "(string \<Rightarrow> jwt_result) \<Rightarrow> (json \<Rightarrow> aget_result) \<Rightarrow> (json \<Rightarrow> string) \<Rightarrow>
   string option \<Rightarrow> (string \<times> json) list \<Rightarrow> string \<Rightarrow> hub \<Rightarrow> py_error + (consumer \<times> hub) outcome" where
  "on_connect jwt_decode aget rp token kw ch h =
     and_then (jwt_auth jwt_decode aget token) (\<lambda>u.
       Inr (connect rp (new_consumer ch u kw) h))"

section \<open>The event table of the specification\<close>

text \<open>The seven names \<open>receive\<close> compares \<open>event\<close> with.\<close>

definition recognized :: "string list" where
  "recognized = [''start_chat'', ''new_message'', ''update_profile'', ''delete_chat'',
                 ''typing_indicator'', ''user_online'', ''user_offline'']"

text \<open>
  The table of inbound kinds as the specification words it: for each kind the target
  group, the type of the internal message and the fields taken from the payload. The
  specification writes the groups \<open>user:<id>\<close>, \<open>chat:<id>\<close> and \<open>online\<close>; the names
  the consumer gives them are \<open>user_<id>\<close>, \<open>chat_<id>\<close> and \<open>online_users\<close>.
\<close>

datatype event_kind =
  StartChat | NewMessage | UpdateProfile | DeleteChat | TypingIndicator | UserOnline | UserOffline

fun kind_name :: "event_kind \<Rightarrow> string" where
  "kind_name StartChat = ''start_chat''"
| "kind_name NewMessage = ''new_message''"
| "kind_name UpdateProfile = ''update_profile''"
| "kind_name DeleteChat = ''delete_chat''"
| "kind_name TypingIndicator = ''typing_indicator''"
| "kind_name UserOnline = ''user_online''"
| "kind_name UserOffline = ''user_offline''"

datatype group_key = UserGroup json | ChatGroup json | Online

fun group_name :: "(json \<Rightarrow> string) \<Rightarrow> group_key \<Rightarrow> string" where
  "group_name rp (UserGroup v) = ''user_'' @ py_str rp v"
| "group_name rp (ChatGroup v) = ''chat_'' @ py_str rp v"
| "group_name rp Online = ''online_users''"

text \<open>A field of a mapping, \<open>None\<close> when the key is missing.\<close>

definition field :: "(string \<times> json) list \<Rightarrow> string \<Rightarrow> json" where
  "field P k = (case map_of P k of Some v \<Rightarrow> v | None \<Rightarrow> JNull)"

fun table_target :: "event_kind \<Rightarrow> (string \<times> json) list \<Rightarrow> group_key" where
  "table_target StartChat P = UserGroup (field P ''recipient_id'')"
| "table_target NewMessage P = ChatGroup (field P ''chat_id'')"
| "table_target UpdateProfile P = Online"
| "table_target DeleteChat P = ChatGroup (field P ''chat_id'')"
| "table_target TypingIndicator P = UserGroup (field P ''recipient_id'')"
| "table_target UserOnline P = Online"
| "table_target UserOffline P = Online"

fun table_outbound :: "event_kind \<Rightarrow> string" where
  "table_outbound StartChat = ''chat_started''"
| "table_outbound NewMessage = ''new_message''"
| "table_outbound UpdateProfile = ''profile_updated''"
| "table_outbound DeleteChat = ''chat_deleted''"
| "table_outbound TypingIndicator = ''user_typing''"
| "table_outbound UserOnline = ''user_online''"
| "table_outbound UserOffline = ''user_offline''"

text \<open>
  The \<open>message\<close> of a \<open>new_message\<close> payload: a mapping, the empty one when the key is
  missing; \<open>None\<close> when the payload carries something else under the key.
\<close>

definition message_of :: "(string \<times> json) list \<Rightarrow> (string \<times> json) list option" where
  "message_of P =
     (case map_of P ''message'' of
        None \<Rightarrow> Some []
      | Some (JObj m) \<Rightarrow> Some m
      | Some _ \<Rightarrow> None)"

definition content_or_default :: "(string \<times> json) list \<Rightarrow> json" where
  "content_or_default m = (case map_of m ''content'' of Some c \<Rightarrow> c | None \<Rightarrow> JStr ''No content'')"

fun table_fields :: "event_kind \<Rightarrow> (string \<times> json) list \<Rightarrow> (string \<times> json) list" where
  "table_fields StartChat P = [(''chat'', field P ''chat'')]"
| "table_fields NewMessage P =
     (case message_of P of
        Some m \<Rightarrow> [(''message'', JObj (dict_set m ''content'' (content_or_default m)))]
      | None \<Rightarrow> [])"
| "table_fields UpdateProfile P = [(''profile'', field P ''profile'')]"
| "table_fields DeleteChat P = [(''chat_id'', field P ''chat_id'')]"
| "table_fields TypingIndicator P = [(''user_id'', field P ''user_id'')]"
| "table_fields UserOnline P = [(''user_id'', field P ''user_id'')]"
| "table_fields UserOffline P = [(''user_id'', field P ''user_id'')]"

definition table_message :: "event_kind \<Rightarrow> (string \<times> json) list \<Rightarrow> json" where
  "table_message k P = JObj ((''type'', JStr (table_outbound k)) # table_fields k P)"

text \<open>
  An inbound envelope of kind \<open>k\<close> with payload \<open>P\<close>: \<open>event\<close> names the kind, \<open>payload\<close>
  is a mapping, and the \<open>message\<close> of a \<open>new_message\<close>, when there is one, is a mapping.
\<close>

definition envelope :: "(string \<times> json) list \<Rightarrow> event_kind \<Rightarrow> (string \<times> json) list \<Rightarrow> bool" where
  "envelope kvs k P \<longleftrightarrow>
     map_of kvs ''event'' = Some (JStr (kind_name k)) \<and> map_of kvs ''payload'' = Some (JObj P)
     \<and> (k \<noteq> NewMessage \<or> message_of P \<noteq> None)"

text \<open>
  The message fields the \<open>new_message\<close> handler reads by subscript besides \<open>content\<close>,
  and the frame it builds when they are all there.
\<close>

definition sender_of :: "(string \<times> json) list \<Rightarrow> (string \<times> json) list option" where
  "sender_of m = (case map_of m ''sender'' of Some (JObj s) \<Rightarrow> Some s | _ \<Rightarrow> None)"

definition sender_fields :: "(string \<times> json) list \<Rightarrow> (string \<times> json) list" where
  "sender_fields m = (case sender_of m of Some s \<Rightarrow> s | None \<Rightarrow> [])"

definition translatable :: "(string \<times> json) list \<Rightarrow> bool" where
  "translatable m \<longleftrightarrow>
     map_of m ''id'' \<noteq> None
     \<and> (case sender_of m of
          Some s \<Rightarrow> map_of s ''id'' \<noteq> None \<and> map_of s ''username'' \<noteq> None
        | None \<Rightarrow> False)
     \<and> map_of m ''mediaType'' \<noteq> None
     \<and> map_of m ''timestamp'' \<noteq> None"

definition outbound_new_message :: "(string \<times> json) list \<Rightarrow> json" where
  "outbound_new_message m =
     JObj [(''event'', JStr ''new_message''),
           (''payload'', JObj [(''message'', JObj
              [(''id'', field m ''id''),
               (''sender'', JObj [(''id'', field (sender_fields m) ''id''),
                                  (''username'', field (sender_fields m) ''username'')]),
               (''content'', content_or_default m),
               (''mediaType'', field m ''mediaType''),
               (''timestamp'', field m ''timestamp'')])])]"

section \<open>Connections over time\<close>

text \<open>The groups a channel is a member of.\<close>

definition joined :: "hub \<Rightarrow> string \<Rightarrow> string set" where
  "joined h ch = {g. ch \<in> groups h g}"

text \<open>
  The hub with its consumers, one for each channel name, and what can happen to it: a
  connection arrives with the user the middleware found and the arguments of its route
  (a new connection gets a channel name no consumer has had), a consumer receives a frame,
  a consumer handles the oldest message of its queue, a connection closes. A consumer
  whose method raised stays in the table; it never joins a group afterwards.
\<close>

datatype event =
    Connect string scope_user "(string \<times> json) list"
  | Receive string string
  | Deliver string
  | Disconnect string int

record system =
  hub_of :: hub
  consumers :: "string \<Rightarrow> consumer option"

definition init_system :: system where
  "init_system = \<lparr>hub_of = empty_hub, consumers = (\<lambda>_. None)\<rparr>"

definition step ::
  "(string \<Rightarrow> py_error + json) \<Rightarrow> (json \<Rightarrow> string) \<Rightarrow> system \<Rightarrow> event \<Rightarrow> system" where
  "step loads rp s ev =
     (case ev of
        Connect ch u kw \<Rightarrow>
          (case consumers s ch of
             Some c \<Rightarrow> s
           | None \<Rightarrow>
               (let oc = connect rp (new_consumer ch u kw) (hub_of s)
                in s\<lparr>hub_of := snd (state_of oc),
                     consumers := (consumers s)(ch \<mapsto> fst (state_of oc))\<rparr>))
      | Receive ch text_data \<Rightarrow>
          (case consumers s ch of
             None \<Rightarrow> s
           | Some c \<Rightarrow>
               (case receive loads rp c (hub_of s) text_data of
                  Inl e \<Rightarrow> s
                | Inr h' \<Rightarrow> s\<lparr>hub_of := h'\<rparr>))
      | Deliver ch \<Rightarrow> s\<lparr>hub_of := state_of (deliver (hub_of s) ch)\<rparr>
      | Disconnect ch code \<Rightarrow>
          (case consumers s ch of
             None \<Rightarrow> s
           | Some c \<Rightarrow>
               (let oc = disconnect rp c (hub_of s) code
                in s\<lparr>hub_of := snd (state_of oc),
                     consumers := (consumers s)(ch \<mapsto> fst (state_of oc))\<rparr>)))"

definition run ::
  "(string \<Rightarrow> py_error + json) \<Rightarrow> (json \<Rightarrow> string) \<Rightarrow> event list \<Rightarrow> system" where
  "run loads rp evs = foldl (step loads rp) init_system evs"

text \<open>
  Every member of a group is the channel of a consumer whose \<open>chat_id\<close> is true and names
  that group.
\<close>

definition membership_inv :: "(json \<Rightarrow> string) \<Rightarrow> system \<Rightarrow> bool" where
  "membership_inv rp s \<longleftrightarrow>
     (\<forall>ch c. consumers s ch = Some c \<longrightarrow> channel_name c = ch)
     \<and> (\<forall>g ch. ch \<in> groups (hub_of s) g \<longrightarrow>
           (\<exists>c cid. consumers s ch = Some c \<and> chat_id c = Some cid \<and> py_truthy cid
                    \<and> g = ''chat_'' @ py_str rp cid))"

text \<open>
  The credentials from which no user is resolved: no token or an empty one, a token that
  \<open>jwt.decode\<close> rejects as expired or invalid, claims without a true \<open>user_id\<close>, a
  \<open>user_id\<close> without a row.
\<close>

definition bad_credential ::
  "(string \<Rightarrow> jwt_result) \<Rightarrow> (json \<Rightarrow> aget_result) \<Rightarrow> string option \<Rightarrow> bool" where
  "bad_credential jwt_decode aget token =
     (case token of
        None \<Rightarrow> True
      | Some t \<Rightarrow>
          t = [] \<or>
          (case jwt_decode t of
             ExpiredSignatureError \<Rightarrow> True
           | InvalidTokenError \<Rightarrow> True
           | Decoded d \<Rightarrow> \<not> py_truthy (field d ''user_id'') \<or> aget (field d ''user_id'') = NoRow))"

section \<open>A session on chat 42\<close>

text \<open>
  Concrete values for the statements below: a decoder that yields a given value, a
  \<open>repr\<close> that is never asked, a user table without rows, a key that rejects every token;
  user 7 on channel \<open>A\<close> and user 8 on channel \<open>B\<close>, both connected on the route of chat
  42; three messages, one without \<open>mediaType\<close> and \<open>timestamp\<close>, one with every field,
  one without \<open>content\<close>; and a \<open>start_chat\<close> frame for a recipient whose id has a space.
\<close>

definition decodes_to :: "json \<Rightarrow> string \<Rightarrow> py_error + json" where
  "decodes_to j text_data = Inr j"

definition no_repr :: "json \<Rightarrow> string" where
  "no_repr v = []"

definition no_users :: "json \<Rightarrow> aget_result" where
  "no_users uid = NoRow"

definition rejects_all :: "string \<Rightarrow> jwt_result" where
  "rejects_all t = InvalidTokenError"

definition spaced_frame :: "(string \<times> json) list" where
  "spaced_frame = [(''event'', JStr ''start_chat''),
                   (''payload'', JObj [(''recipient_id'', JStr ''a b'')])]"

definition route42 :: "(string \<times> json) list" where
  "route42 = [(''chat_id'', JStr ''42'')]"

definition hub_A :: hub where
  "hub_A = snd (state_of (connect no_repr (new_consumer ''A'' (User 7) route42) empty_hub))"

definition hub_AB :: hub where
  "hub_AB = snd (state_of (connect no_repr (new_consumer ''B'' (User 8) route42) hub_A))"

definition consumer_A :: consumer where
  "consumer_A = fst (state_of (connect no_repr (new_consumer ''A'' (User 7) route42) empty_hub))"

definition short_message :: "(string \<times> json) list" where
  "short_message = [(''id'', JInt 1),
                    (''sender'', JObj [(''id'', JInt 7), (''username'', JStr ''ann'')]),
                    (''content'', JStr ''hi'')]"

definition full_message :: "(string \<times> json) list" where
  "full_message = [(''id'', JInt 1),
                    (''sender'', JObj [(''id'', JInt 7), (''username'', JStr ''ann'')]),
                    (''content'', JStr ''hi''),
                    (''mediaType'', JStr ''text''),
                    (''timestamp'', JStr ''2024-01-01T00:00:00'')]"

definition new_message_frame :: "(string \<times> json) list \<Rightarrow> (string \<times> json) list" where
  "new_message_frame m =
     [(''event'', JStr ''new_message''),
      (''payload'', JObj [(''chat_id'', JInt 42), (''message'', JObj m)])]"


definition session :: "event list" where
  "session = [Connect ''A'' (User 7) route42, Connect ''B'' (User 8) route42,
              Receive ''A'' ''frame'', Deliver ''B'']"

section \<open>Text, bytes and Base64 of the persistence layer\<close>

text \<open>
  The persistence layer encodes and decodes the content of a message, so there a \<open>str\<close>
  is the list of its code points and a \<open>bytes\<close> the list of its bytes, both as natural
  numbers. A code point that UTF-8 can encode is a Unicode scalar value: below
  \<open>0x110000\<close> and no surrogate.
\<close>

definition scalar_value :: "nat \<Rightarrow> bool" where
  "scalar_value c \<longleftrightarrow> c < 55296 \<or> (57344 \<le> c \<and> c < 1114112)"

text \<open>
  \<open>s.encode("utf-8")\<close>: one to four bytes for each code point; a surrogate raises
  \<open>UnicodeEncodeError\<close>. (A \<open>str\<close> has no element from \<open>0x110000\<close> on.)
\<close>

definition utf8_encode_char :: "nat \<Rightarrow> py_error + nat list" where
  "utf8_encode_char c =
     (if c < 128 then Inr [c]
      else if c < 2048 then Inr [192 + c div 64, 128 + c mod 64]
      else if c < 65536 then
        (if 55296 \<le> c \<and> c < 57344 then Inl UnicodeEncodeError
         else Inr [224 + c div 4096, 128 + (c div 64) mod 64, 128 + c mod 64])
      else if c < 1114112 then
        Inr [240 + c div 262144, 128 + (c div 4096) mod 64, 128 + (c div 64) mod 64, 128 + c mod 64]
      else Inl UnicodeEncodeError)"

fun utf8_encode :: "nat list \<Rightarrow> py_error + nat list" where
  "utf8_encode [] = Inr []"
| "utf8_encode (c # cs) =
     and_then (utf8_encode_char c) (\<lambda>bs.
     and_then (utf8_encode cs) (\<lambda>rest. Inr (bs @ rest)))"

text \<open>
  \<open>b.decode("utf-8")\<close>, strict: a lead byte, its continuation bytes, and no overlong
  form, no surrogate and nothing from \<open>0x110000\<close> on.
\<close>

definition continuation :: "nat \<Rightarrow> bool" where
  "continuation b \<longleftrightarrow> 128 \<le> b \<and> b < 192"

text \<open>The first character of a byte sequence and the bytes after it.\<close>

definition utf8_next :: "nat list \<Rightarrow> (nat \<times> nat list) option" where
  "utf8_next bs =
     (case bs of
        [] \<Rightarrow> None
      | b0 # r0 \<Rightarrow>
          if b0 < 128 then Some (b0, r0)
          else if 194 \<le> b0 \<and> b0 < 224 then
            (case r0 of
               b1 # r \<Rightarrow>
                 if continuation b1 then Some ((b0 - 192) * 64 + (b1 - 128), r) else None
             | _ \<Rightarrow> None)
          else if 224 \<le> b0 \<and> b0 < 240 then
            (case r0 of
               b1 # b2 # r \<Rightarrow>
                 (let c = (b0 - 224) * 4096 + (b1 - 128) * 64 + (b2 - 128)
                  in if continuation b1 \<and> continuation b2 \<and> 2048 \<le> c
                        \<and> \<not> (55296 \<le> c \<and> c < 57344)
                     then Some (c, r) else None)
             | _ \<Rightarrow> None)
          else if 240 \<le> b0 \<and> b0 < 245 then
            (case r0 of
               b1 # b2 # b3 # r \<Rightarrow>
                 (let c = (b0 - 240) * 262144 + (b1 - 128) * 4096 + (b2 - 128) * 64 + (b3 - 128)
                  in if continuation b1 \<and> continuation b2 \<and> continuation b3
                        \<and> 65536 \<le> c \<and> c < 1114112
                     then Some (c, r) else None)
             | _ \<Rightarrow> None)
          else None)"

function utf8_decode :: "nat list \<Rightarrow> py_error + nat list" where
  "utf8_decode bs =
     (if bs = [] then Inr []
      else case utf8_next bs of
             None \<Rightarrow> Inl UnicodeDecodeError
           | Some (c, r) \<Rightarrow> and_then (utf8_decode r) (\<lambda>s. Inr (c # s)))"
  by pat_completeness auto
termination
  by (relation "measure length")
    (auto simp: utf8_next_def Let_def split: list.splits if_splits)

declare utf8_decode.simps [simp del]

text \<open>
  The Base64 alphabet: the character of a six-bit value, and the value of a character
  (\<open>None\<close> for a character outside the alphabet). \<open>=\<close>, the padding, is 61.
\<close>

definition b64_char :: "nat \<Rightarrow> nat" where
  "b64_char i =
     (if i < 26 then 65 + i
      else if i < 52 then 97 + (i - 26)
      else if i < 62 then 48 + (i - 52)
      else if i = 62 then 43
      else 47)"

definition b64_index :: "nat \<Rightarrow> nat option" where
  "b64_index c =
     (if 65 \<le> c \<and> c \<le> 90 then Some (c - 65)
      else if 97 \<le> c \<and> c \<le> 122 then Some (c - 71)
      else if 48 \<le> c \<and> c \<le> 57 then Some (c + 4)
      else if c = 43 then Some 62
      else if c = 47 then Some 63
      else None)"

text \<open>\<open>base64.b64encode\<close>: three bytes give four characters, the last group is padded.\<close>

fun b64encode :: "nat list \<Rightarrow> nat list" where
  "b64encode [] = []"
| "b64encode [a] = [b64_char (a div 4), b64_char ((a mod 4) * 16), 61, 61]"
| "b64encode [a, b] =
     [b64_char (a div 4), b64_char ((a mod 4) * 16 + b div 16), b64_char ((b mod 16) * 4), 61]"
| "b64encode (a # b # c # rest) =
     [b64_char (a div 4), b64_char ((a mod 4) * 16 + b div 16),
      b64_char ((b mod 16) * 4 + c div 64), b64_char (c mod 64)] @ b64encode rest"

text \<open>
  \<open>base64.b64decode\<close> without validation, that is \<open>binascii.a2b_base64\<close>: characters
  outside the alphabet are skipped, a padding that completes a group of four ends the
  decoding, and input that ends inside a group raises \<open>binascii.Error\<close>. The state is the
  position in the group, the bits left over, the padding seen, and the bytes so far.
\<close>

fun a2b_base64 :: "nat list \<Rightarrow> nat \<Rightarrow> nat \<Rightarrow> nat \<Rightarrow> nat list \<Rightarrow> py_error + nat list" where
  "a2b_base64 [] quad_pos leftchar pads out =
     (if quad_pos \<noteq> 0 then Inl BinasciiError else Inr out)"
| "a2b_base64 (c # cs) quad_pos leftchar pads out =
     (if c = 61 then
        (if 2 \<le> quad_pos \<and> 4 \<le> quad_pos + (pads + 1) then Inr out
         else a2b_base64 cs quad_pos leftchar (if 2 \<le> quad_pos then pads + 1 else pads) out)
      else
        (case b64_index c of
           None \<Rightarrow> a2b_base64 cs quad_pos leftchar pads out
         | Some v \<Rightarrow>
             if quad_pos = 0 then a2b_base64 cs 1 v 0 out
             else if quad_pos = 1 then
               a2b_base64 cs 2 (v mod 16) 0 (out @ [leftchar * 4 + v div 16])
             else if quad_pos = 2 then
               a2b_base64 cs 3 (v mod 4) 0 (out @ [leftchar * 16 + v div 4])
             else a2b_base64 cs 0 0 0 (out @ [leftchar * 64 + v])))"

definition b64decode :: "nat list \<Rightarrow> py_error + nat list" where
  "b64decode s = a2b_base64 s 0 0 0 []"

section \<open>Message and send_message\<close>

text \<open>The code points of an ASCII literal.\<close>

definition ascii :: "string \<Rightarrow> nat list" where
  "ascii s = map of_char s"

text \<open>
  The rows the mutation touches, the database as it sees it (the chats by their ids, the
  users by id, the messages in the order of their creation, the next primary key), the
  input of the mutation and the \<open>MessageType\<close> it returns.
\<close>

record user_row =
  user_pk :: int
  username :: "nat list"

record message =
  message_pk :: int
  message_chat :: int
  message_sender :: int
  content :: "nat list"
  media_type :: "nat list"
  timestamp :: "nat list"

record database =
  chats :: "int set"
  users :: "int \<Rightarrow> user_row option"
  messages :: "message list"
  next_message_pk :: int

record send_message_input =
  in_chat_id :: int
  in_sender_id :: int
  in_content :: "nat list"
  in_media_type :: "nat list option"

record message_type =
  mt_id :: int
  mt_sender :: user_row
  mt_media_type :: "nat list"
  mt_timestamp :: "nat list"
  mt_content :: "nat list"

text \<open>
  \<open>Message.encrypt_content\<close> and \<open>Message.decrypt_content\<close>. The latter catches every
  exception of its three steps and then returns the content as it is stored.
\<close>

definition encrypt_content :: "message \<Rightarrow> py_error + nat list" where
  "encrypt_content self =
     and_then (utf8_encode (content self)) (\<lambda>raw. utf8_decode (b64encode raw))"

definition decrypt_content :: "message \<Rightarrow> nat list" where
  "decrypt_content self =
     (case and_then (utf8_encode (content self)) (\<lambda>raw.
           and_then (b64decode raw) utf8_decode) of
        Inl e \<Rightarrow> content self
      | Inr decoded \<Rightarrow> decoded)"

text \<open>
  \<open>Mutation.send_message\<close>. \<open>now\<close> is the time the database stamps on the new row, as
  \<open>str\<close> prints it. \<open>Chat.objects.get\<close> and \<open>User.objects.get\<close> raise \<open>DoesNotExist\<close> for an
  id without a row.
\<close>

definition send_message ::
  "nat list \<Rightarrow> database \<Rightarrow> send_message_input \<Rightarrow> py_error + (database \<times> message_type)" where
  "send_message now db input =
     (if in_chat_id input \<notin> chats db then Inl DoesNotExist
      else case users db (in_sender_id input) of
        None \<Rightarrow> Inl DoesNotExist
      | Some sender \<Rightarrow>
          and_then (utf8_encode (in_content input)) (\<lambda>raw.
          and_then (utf8_decode (b64encode raw)) (\<lambda>encrypted_content.
            (let message =
                   \<lparr>message_pk = next_message_pk db,
                    message_chat = in_chat_id input,
                    message_sender = user_pk sender,
                    content = encrypted_content,
                    media_type =
                      (case in_media_type input of
                         None \<Rightarrow> ascii ''text''
                       | Some t \<Rightarrow> if t = [] then ascii ''text'' else t),
                    timestamp = now\<rparr>;
                 db' = db\<lparr>messages := messages db @ [message],
                          next_message_pk := next_message_pk db + 1\<rparr>;
                 decrypted_content = decrypt_content message
             in Inr (db', \<lparr>mt_id = message_pk message,
                          mt_sender = sender,
                          mt_media_type = media_type message,
                          mt_timestamp = timestamp message,
                          mt_content = decrypted_content\<rparr>)))))"

text \<open>
  A database with chat 42 and user 7, the message \<open>h\<close>, \<open>e\<close> with acute accent (code
  points 104 and 233) sent there, the row that is stored for it and the reply.
\<close>

definition demo_db :: database where
  "demo_db = \<lparr>chats = {42},
              users = (\<lambda>i. if i = 7 then Some \<lparr>user_pk = 7, username = ascii ''ann''\<rparr> else None),
              messages = [], next_message_pk = 1\<rparr>"

definition demo_input :: send_message_input where
  "demo_input = \<lparr>in_chat_id = 42, in_sender_id = 7, in_content = [104, 233], in_media_type = None\<rparr>"

definition demo_stored :: message where
  "demo_stored = \<lparr>message_pk = 1, message_chat = 42, message_sender = 7,
                  content = [97, 77, 79, 112], media_type = ascii ''text'',
                  timestamp = ascii ''2024-01-01''\<rparr>"

definition demo_reply :: message_type where
  "demo_reply = \<lparr>mt_id = 1, mt_sender = \<lparr>user_pk = 7, username = ascii ''ann''\<rparr>,
                 mt_media_type = ascii ''text'', mt_timestamp = ascii ''2024-01-01'',
                 mt_content = [104, 233]\<rparr>"

section \<open>Evaluation rules\<close>

lemma and_then_Inr: "and_then (Inr x) f = f x"
  by (simp add: and_then_def)

lemma and_then_Inl: "and_then (Inl e) f = Inl e"
  by (simp add: and_then_def)

lemma py_get_obj: "py_get (JObj kvs) k d = Inr (case map_of kvs k of Some v \<Rightarrow> v | None \<Rightarrow> d)"
  by (simp add: py_get_def)

lemma py_get_field: "py_get (JObj P) k JNull = Inr (field P k)"
  by (simp add: py_get_def field_def)

lemma py_getitem_obj:
  "py_getitem (JObj kvs) k = (case map_of kvs k of Some v \<Rightarrow> Inr v | None \<Rightarrow> Inl (KeyError k))"
  by (simp add: py_getitem_def)

lemma map_of_dict_set: "map_of (dict_set m k v) k' = (if k' = k then Some v else map_of m k')"
  by (induction m k v rule: dict_set.induct) auto

lemma broadcast_groups: "groups (broadcast h g m) = groups h"
  by (simp add: broadcast_def)

lemma group_send_groups: "group_send h g m = Inr h' \<Longrightarrow> groups h' = groups h"
  by (auto simp: group_send_def broadcast_def split: if_splits)

lemma join_mem:
  "x \<in> groups (join h G c) g \<longleftrightarrow> (g = G \<and> x = c) \<or> x \<in> groups h g"
  by (auto simp: join_def)

lemma valid_online_users: "valid_group_name ''online_users''"
  by (simp add: valid_group_name_def group_name_char_def)

lemma valid_chat_42: "valid_group_name ''chat_42''"
  by (simp add: valid_group_name_def group_name_char_def)

lemma invalid_user_a_b: "\<not> valid_group_name ''user_a b''"
  by (simp add: valid_group_name_def group_name_char_def)

section \<open>What receive sends\<close>

lemma receive_data_envelope:
  assumes "envelope kvs k P"
  shows "receive_data rp self h (JObj kvs)
         = group_send h (group_name rp (table_target k P)) (table_message k P)"
proof -
  have ev: "py_get (JObj kvs) ''event'' JNull = Inr (JStr (kind_name k))"
    and pl: "py_get (JObj kvs) ''payload'' JNull = Inr (JObj P)"
    using assms by (simp_all add: envelope_def py_get_def)
  show ?thesis
  proof (cases k)
    case NewMessage
    then obtain m where m: "message_of P = Some m"
      using assms by (auto simp: envelope_def)
    then have g: "py_get (JObj P) ''message'' (JObj []) = Inr (JObj m)"
      by (auto simp: message_of_def py_get_def split: option.splits json.splits)
    have c: "py_get (JObj m) ''content'' (JStr ''No content'') = Inr (content_or_default m)"
      by (simp add: py_get_def content_or_default_def)
    show ?thesis
      unfolding receive_data_def ev pl and_then_Inr g c
      by (simp add: NewMessage m py_get_field and_then_Inr py_setitem_def table_message_def)
  qed (unfold receive_data_def ev pl and_then_Inr,
       simp_all add: py_get_field and_then_Inr table_message_def)
qed

lemma and_then_groups:
  assumes "and_then r f = Inr h'" and "\<And>x. f x = Inr h' \<Longrightarrow> Q"
  shows Q
  using assms by (cases r) (simp_all add: and_then_def)

lemma receive_data_groups:
  assumes "receive_data rp self h data = Inr h'"
  shows "groups h' = groups h"
  using assms unfolding receive_data_def
  by (auto elim!: and_then_groups dest: group_send_groups split: if_splits)

lemma receive_groups:
  "receive loads rp self h text_data = Inr h' \<Longrightarrow> groups h' = groups h"
  by (auto simp: receive_def receive_data_groups split: sum.splits)

lemma deliver_groups: "groups (state_of (deliver h ch)) = groups h"
  by (simp add: deliver_def Let_def split: list.splits sum.splits)

section \<open>What the new_message handler writes\<close>

lemma new_message_internal:
  "new_message (JObj [(''type'', t), (''message'', JObj (dict_set m ''content'' (content_or_default m)))])
   = (if translatable m then Inr (outbound_new_message m)
      else Inl (if map_of m ''id'' = None then KeyError ''id''
                else if map_of m ''sender'' = None then KeyError ''sender''
                else if sender_of m = None then TypeError
                else if map_of (sender_fields m) ''id'' = None then KeyError ''id''
                else if map_of (sender_fields m) ''username'' = None then KeyError ''username''
                else if map_of m ''mediaType'' = None then KeyError ''mediaType''
                else KeyError ''timestamp''))"
  by (auto simp: new_message_def py_getitem2_def py_getitem3_def py_getitem_obj py_getitem_def
      and_then_def map_of_dict_set translatable_def sender_of_def sender_fields_def
      outbound_new_message_def field_def
      split: option.splits json.splits)

lemma dispatch_new_message:
  "dispatch (JObj [(''type'', JStr ''new_message''), (''message'', x)])
   = new_message (JObj [(''type'', JStr ''new_message''), (''message'', x)])"
  by (simp add: dispatch_def py_getitem_obj and_then_Inr)


section \<open>Group membership is kept by connect and disconnect alone\<close>

lemma connect_cases:
  "connect rp (new_consumer ch u kw) h = oc \<Longrightarrow>
     channel_name (fst (state_of oc)) = ch
     \<and> ((groups (snd (state_of oc)) = groups h)
        \<or> (\<exists>cid. chat_id (fst (state_of oc)) = Some cid \<and> py_truthy cid
              \<and> snd (state_of oc) = join h (''chat_'' @ py_str rp cid) ch))"
  by (cases "map_of kw ''chat_id''")
    (fastforce simp: connect_def new_consumer_def Let_def group_add_def)+

lemma disconnect_cases:
  "disconnect rp c h code = oc \<Longrightarrow>
     fst (state_of oc) = c
     \<and> (\<forall>g. groups (snd (state_of oc)) g \<subseteq> groups h g)"
  by (auto simp: disconnect_def group_discard_def leave_def split: option.splits if_splits)

lemma membership_inv_step:
  assumes "membership_inv rp s"
  shows "membership_inv rp (step loads rp s ev)"
proof (cases ev)
  case (Connect ch u kw)
  show ?thesis
  proof (cases "consumers s ch")
    case (Some c)
    then show ?thesis using assms Connect by (simp add: step_def)
  next
    case None
    define oc where "oc = connect rp (new_consumer ch u kw) (hub_of s)"
    have st: "step loads rp s ev = s\<lparr>hub_of := snd (state_of oc),
                     consumers := (consumers s)(ch \<mapsto> fst (state_of oc))\<rparr>"
      using Connect None by (simp add: step_def oc_def Let_def)
    from connect_cases [OF oc_def [symmetric]]
    have nm: "channel_name (fst (state_of oc)) = ch"
      and alt: "(groups (snd (state_of oc)) = groups (hub_of s))
        \<or> (\<exists>cid. chat_id (fst (state_of oc)) = Some cid \<and> py_truthy cid
              \<and> snd (state_of oc) = join (hub_of s) (''chat_'' @ py_str rp cid) ch)"
      by auto
    have fresh: "ch \<notin> groups (hub_of s) g" for g
      using assms None unfolding membership_inv_def by fastforce
    have old: "\<exists>c cid. consumers s x = Some c \<and> chat_id c = Some cid \<and> py_truthy cid
                 \<and> g = ''chat_'' @ py_str rp cid"
      if "x \<in> groups (hub_of s) g" for x g
      using assms that unfolding membership_inv_def by blast
    have names: "\<forall>x c. ((consumers s)(ch \<mapsto> fst (state_of oc))) x = Some c \<longrightarrow> channel_name c = x"
      using assms nm unfolding membership_inv_def by auto
    have "\<exists>c cid. ((consumers s)(ch \<mapsto> fst (state_of oc))) x = Some c \<and> chat_id c = Some cid
             \<and> py_truthy cid \<and> g = ''chat_'' @ py_str rp cid"
      if mem: "x \<in> groups (snd (state_of oc)) g" for x g
    proof (cases "x = ch")
      case True
      with mem fresh alt obtain cid where "chat_id (fst (state_of oc)) = Some cid" "py_truthy cid"
        "snd (state_of oc) = join (hub_of s) (''chat_'' @ py_str rp cid) ch"
        by auto
      moreover from this mem True fresh have "g = ''chat_'' @ py_str rp cid"
        by (auto simp: join_mem)
      ultimately show ?thesis using True by simp
    next
      case False
      with mem alt have "x \<in> groups (hub_of s) g"
        by (auto simp: join_mem)
      from old [OF this] False show ?thesis by simp
    qed
    with names show ?thesis
      unfolding st membership_inv_def by simp
  qed
next
  case (Receive ch text_data)
  then show ?thesis
    using assms
    by (auto simp: step_def membership_inv_def receive_groups split: option.splits sum.splits)
next
  case (Deliver ch)
  then show ?thesis
    using assms by (simp add: step_def membership_inv_def deliver_groups)
next
  case (Disconnect ch code)
  show ?thesis
  proof (cases "consumers s ch")
    case None
    then show ?thesis using assms Disconnect by (simp add: step_def)
  next
    case (Some c)
    define oc where "oc = disconnect rp c (hub_of s) code"
    have st: "step loads rp s ev = s\<lparr>hub_of := snd (state_of oc),
                     consumers := (consumers s)(ch \<mapsto> fst (state_of oc))\<rparr>"
      using Disconnect Some by (simp add: step_def oc_def Let_def)
    from disconnect_cases [OF oc_def [symmetric]]
    have same: "fst (state_of oc) = c"
      and sub: "\<And>g. groups (snd (state_of oc)) g \<subseteq> groups (hub_of s) g"
      by auto
    have upd: "(consumers s)(ch \<mapsto> fst (state_of oc)) = consumers s"
      using Some same by auto
    show ?thesis
      using assms sub unfolding st upd membership_inv_def by (simp, blast)
  qed
qed

lemma membership_inv_run: "membership_inv rp (run loads rp evs)"
proof (induction evs rule: rev_induct)
  case Nil
  show ?case by (simp add: run_def init_system_def empty_hub_def membership_inv_def)
next
  case (snoc ev evs)
  then show ?case
    using membership_inv_step [of rp "run loads rp evs" loads ev] by (simp add: run_def)
qed

section \<open>The session on chat 42\<close>

lemma connect_route42:
  "u \<noteq> 0 \<Longrightarrow>
   connect no_repr (new_consumer ch (User u) route42) h
   = Returned (new_consumer ch (User u) route42
                 \<lparr>accepted := True, user_id := Some (JInt u), chat_id := Some (JStr ''42''),
                  chat_group_name := Some ''chat_42''\<rparr>,
               join h ''chat_42'' ch)"
  by (simp add: connect_def new_consumer_def route42_def Let_def py_str_def group_add_def
      valid_chat_42)

lemma hub_A_join: "hub_A = join empty_hub ''chat_42'' ''A''"
  by (simp add: hub_A_def connect_route42)

lemma hub_AB_join: "hub_AB = join (join empty_hub ''chat_42'' ''A'') ''chat_42'' ''B''"
  by (simp add: hub_AB_def hub_A_join connect_route42)

lemma joined_hub_A: "joined hub_A ''A'' = {''chat_42''}"
  by (auto simp: joined_def hub_A_join join_def empty_hub_def split: if_splits)

lemma groups_hub_AB: "groups hub_AB ''chat_42'' = {''A'', ''B''}"
  by (auto simp: hub_AB_join join_def empty_hub_def)

lemma inbox_hub_AB: "inbox hub_AB ch = []"
  by (simp add: hub_AB_join join_def empty_hub_def)

lemma wire_hub_AB: "wire hub_AB ch = []"
  by (simp add: hub_AB_join join_def empty_hub_def)

lemma envelope_new_message_frame:
  "envelope (new_message_frame m) NewMessage [(''chat_id'', JInt 42), (''message'', JObj m)]"
  by (simp add: envelope_def new_message_frame_def message_of_def)

lemma translatable_full: "translatable full_message"
  by (simp add: translatable_def full_message_def sender_of_def)

lemma chat_id_consumer_A: "chat_id consumer_A = Some (JStr ''42'')"
  by (simp add: consumer_A_def connect_route42)

lemma channel_name_consumer_A: "channel_name consumer_A = ''A''"
  by (simp add: consumer_A_def connect_route42) (simp add: new_consumer_def)

lemma run_session_consumer:
  "consumers (run (decodes_to (JObj (new_message_frame full_message))) no_repr session) ''A''
   = Some consumer_A"
  by (simp add: run_def session_def step_def init_system_def Let_def consumer_A_def
      connect_route42 split: sum.splits option.splits)

lemma run_session_groups:
  "groups (hub_of (run (decodes_to (JObj (new_message_frame full_message))) no_repr session))
   = groups hub_AB"
  by (auto simp: run_def session_def step_def init_system_def Let_def hub_AB_def hub_A_def
      connect_route42 deliver_groups receive_groups split: sum.splits option.splits)

section \<open>The connection at connect time\<close>

lemma jwt_auth_bad:
  "bad_credential jwt_decode aget token \<Longrightarrow> jwt_auth jwt_decode aget token = Inr AnonymousUser"
  by (auto simp: bad_credential_def jwt_auth_def field_def get_user_def and_then_def Let_def
      split: option.splits jwt_result.splits)

lemma connect_anonymous:
  "accepted (fst (state_of (connect rp (new_consumer ch AnonymousUser kw) h)))
   \<and> user_id (fst (state_of (connect rp (new_consumer ch AnonymousUser kw) h))) = Some JNull
   \<and> snd (state_of (connect rp (new_consumer ch AnonymousUser kw) h)) = h"
  by (simp add: connect_def new_consumer_def Let_def split: option.splits)

section \<open>Base64 decoding undoes encoding\<close>

lemma b64_index_char: "i < 64 \<Longrightarrow> b64_index (b64_char i) = Some i"
  by (auto simp: b64_index_def b64_char_def)

lemma b64_char_not_pad: "b64_char i \<noteq> 61"
  by (auto simp: b64_char_def)

lemma b64_char_ascii: "b64_char i < 128"
  by (auto simp: b64_char_def)

lemma a2b_sextet:
  assumes "i < 64"
  shows "a2b_base64 (b64_char i # cs) q l p out =
           (if q = 0 then a2b_base64 cs 1 i 0 out
            else if q = 1 then a2b_base64 cs 2 (i mod 16) 0 (out @ [l * 4 + i div 16])
            else if q = 2 then a2b_base64 cs 3 (i mod 4) 0 (out @ [l * 16 + i div 4])
            else a2b_base64 cs 0 0 0 (out @ [l * 64 + i]))"
  using assms by (simp add: b64_index_char b64_char_not_pad)

lemma a2b_pad:
  "a2b_base64 (61 # cs) q l p out =
     (if 2 \<le> q \<and> 4 \<le> q + (p + 1) then Inr out
      else a2b_base64 cs q l (if 2 \<le> q then p + 1 else p) out)"
  by simp

lemma byte_hi4: "(b::nat) < 256 \<Longrightarrow> b div 16 < 16"
  by (simp add: less_mult_imp_div_less)

lemma byte_hi2: "(c::nat) < 256 \<Longrightarrow> c div 64 < 4"
  by (simp add: less_mult_imp_div_less)

lemma byte_hi6: "(a::nat) < 256 \<Longrightarrow> a div 4 < 64"
  by (simp add: less_mult_imp_div_less)

lemma sextet2: "(b::nat) < 256 \<Longrightarrow> (a mod 4) * 16 + b div 16 < 64"
  using byte_hi4 [of b] by simp

lemma sextet3: "(c::nat) < 256 \<Longrightarrow> (b mod 16) * 4 + c div 64 < 64"
  using byte_hi2 [of c] by simp

lemma octet1: "(b::nat) < 256 \<Longrightarrow> (a div 4) * 4 + ((a mod 4) * 16 + b div 16) div 16 = a"
  using byte_hi4 [of b] by simp

lemma octet2:
  "(b::nat) < 256 \<Longrightarrow> (c::nat) < 256 \<Longrightarrow>
   (((a mod 4) * 16 + b div 16) mod 16) * 16 + ((b mod 16) * 4 + c div 64) div 4 = b"
  using byte_hi4 [of b] byte_hi2 [of c] by simp

lemma octet3: "(c::nat) < 256 \<Longrightarrow> (((b mod 16) * 4 + c div 64) mod 4) * 64 + c mod 64 = c"
  using byte_hi2 [of c] by simp

lemma a2b_b64encode:
  assumes "\<forall>b \<in> set bs. b < 256"
  shows "a2b_base64 (b64encode bs) 0 l p out = Inr (out @ bs)"
  using assms
proof (induction bs arbitrary: l p out rule: b64encode.induct)
  case 1
  show ?case by simp
next
  case (2 a)
  then have a: "a < 256" by simp
  have s2: "(a mod 4) * 16 + 0 div 16 < 64" using sextet2 [of 0 a] by simp
  have e: "(a div 4) * 4 + ((a mod 4) * 16 + 0 div 16) div 16 = a" using octet1 [of 0 a] by simp
  show ?case
    using a2b_sextet [OF byte_hi6 [OF a], of "[b64_char ((a mod 4) * 16), 61, 61]" 0 l p out]
      a2b_sextet [of "(a mod 4) * 16" "[61, 61]" 1 "a div 4" 0 out] s2 e
    by (simp add: a2b_pad del: a2b_base64.simps(2))
next
  case (3 a b)
  then have a: "a < 256" and b: "b < 256" by simp_all
  have s3: "(b mod 16) * 4 + 0 div 64 < 64" using sextet3 [of 0 b] by simp
  have e2: "(((a mod 4) * 16 + b div 16) mod 16) * 16 + ((b mod 16) * 4) div 4 = b"
    using octet2 [OF b, of 0 a] by simp
  show ?case
    using a2b_sextet [OF byte_hi6 [OF a],
        of "[b64_char ((a mod 4) * 16 + b div 16), b64_char ((b mod 16) * 4), 61]" 0 l p out]
      a2b_sextet [OF sextet2 [OF b, of a], of "[b64_char ((b mod 16) * 4), 61]" 1 "a div 4" 0 out]
      a2b_sextet [of "(b mod 16) * 4" "[61]" 2 "((a mod 4) * 16 + b div 16) mod 16" 0 "out @ [a]"]
      s3 octet1 [OF b, of a] e2
    by (simp add: a2b_pad del: a2b_base64.simps(2))
next
  case (4 a b c rest)
  then have a: "a < 256" and b: "b < 256" and c: "c < 256" and r: "\<forall>x \<in> set rest. x < 256"
    by simp_all
  have s4: "c mod 64 < 64" by simp
  show ?case
    using "4.IH" [OF r, of 0 0 "out @ [a, b, c]"]
      a2b_sextet [OF byte_hi6 [OF a],
        of "b64_char ((a mod 4) * 16 + b div 16) # b64_char ((b mod 16) * 4 + c div 64)
            # b64_char (c mod 64) # b64encode rest" 0 l p out]
      a2b_sextet [OF sextet2 [OF b, of a],
        of "b64_char ((b mod 16) * 4 + c div 64) # b64_char (c mod 64) # b64encode rest"
           1 "a div 4" 0 out]
      a2b_sextet [OF sextet3 [OF c, of b], of "b64_char (c mod 64) # b64encode rest"
           2 "((a mod 4) * 16 + b div 16) mod 16" 0 "out @ [a]"]
      a2b_sextet [OF s4, of "b64encode rest" 3 "((b mod 16) * 4 + c div 64) mod 4" 0 "out @ [a, b]"]
      octet1 [OF b, of a] octet2 [OF b c, of a] octet3 [OF c, of b]
    by (simp del: a2b_base64.simps(2))
qed

lemma b64decode_b64encode: "\<forall>b \<in> set bs. b < 256 \<Longrightarrow> b64decode (b64encode bs) = Inr bs"
  by (simp add: b64decode_def a2b_b64encode)

lemma b64encode_ascii: "\<forall>b \<in> set (b64encode bs). b < 128"
  by (induction bs rule: b64encode.induct) (simp_all add: b64_char_ascii)

section \<open>UTF-8 decoding undoes encoding\<close>

lemma div_4096: "(c::nat) div 4096 = c div 64 div 64"
  by (simp add: div_mult2_eq [symmetric])

lemma join3: "(c::nat) div 4096 * 4096 + (c div 64) mod 64 * 64 + c mod 64 = c"
proof -
  have "c div 4096 * 4096 = (c div 64 div 64 * 64) * 64" by (simp add: div_4096)
  moreover have "c div 64 div 64 * 64 + c div 64 mod 64 = c div 64" by simp
  ultimately have "c div 4096 * 4096 + (c div 64) mod 64 * 64 = c div 64 * 64"
    by (metis add_mult_distrib)
  then show ?thesis by simp
qed

lemma join4:
  "(c::nat) div 262144 * 262144 + (c div 4096) mod 64 * 4096 + (c div 64) mod 64 * 64 + c mod 64 = c"
proof -
  let ?d = "c div 64"
  have "?d div 4096 * 4096 + (?d div 64) mod 64 * 64 + ?d mod 64 = ?d" by (rule join3)
  moreover have "?d div 4096 = c div 262144" by (simp add: div_mult2_eq [symmetric])
  moreover have "?d div 64 = c div 4096" by (simp add: div_4096)
  ultimately have "c div 262144 * 4096 + (c div 4096) mod 64 * 64 + (c div 64) mod 64 = c div 64"
    by simp
  then have "(c div 262144 * 4096 + (c div 4096) mod 64 * 64 + (c div 64) mod 64) * 64 + c mod 64 = c"
    by simp
  then show ?thesis by (simp add: add_mult_distrib)
qed

lemma utf8_next_encode_char:
  assumes "utf8_encode_char c = Inr bs"
  shows "utf8_next (bs @ rest) = Some (c, rest)"
proof -
  consider "c < 128" | "128 \<le> c" "c < 2048" | "2048 \<le> c" "c < 65536" | "65536 \<le> c" "c < 1114112"
    | "1114112 \<le> c" by linarith
  then show ?thesis
  proof cases
    case 1
    then show ?thesis using assms by (auto simp: utf8_encode_char_def utf8_next_def)
  next
    case 2
    then have lo: "2 \<le> c div 64" and hi: "c div 64 < 32"
      by (simp_all add: less_mult_imp_div_less le_div_geq)
    from 2 assms have bs: "bs = [192 + c div 64, 128 + c mod 64]"
      by (simp add: utf8_encode_char_def)
    show ?thesis
      using lo hi by (simp add: bs utf8_next_def continuation_def)
  next
    case 3
    then have hi: "c div 4096 < 16"
      by (simp add: less_mult_imp_div_less)
    from 3 assms have sur: "\<not> (55296 \<le> c \<and> c < 57344)"
      and bs: "bs = [224 + c div 4096, 128 + (c div 64) mod 64, 128 + c mod 64]"
      by (auto simp: utf8_encode_char_def split: if_splits)
    show ?thesis
      using hi 3 sur join3 [of c] by (simp add: bs utf8_next_def continuation_def Let_def)
  next
    case 4
    then have hi: "c div 262144 < 5"
      by (simp add: less_mult_imp_div_less)
    from 4 assms
    have bs: "bs = [240 + c div 262144, 128 + (c div 4096) mod 64, 128 + (c div 64) mod 64, 128 + c mod 64]"
      by (auto simp: utf8_encode_char_def split: if_splits)
    show ?thesis
      using hi 4 join4 [of c] by (simp add: bs utf8_next_def continuation_def Let_def)
  next
    case 5
    then show ?thesis using assms by (simp add: utf8_encode_char_def)
  qed
qed

lemma utf8_encode_char_nonempty: "utf8_encode_char c = Inr bs \<Longrightarrow> bs \<noteq> []"
  by (auto simp: utf8_encode_char_def split: if_splits)

lemma utf8_decode_encode: "utf8_encode s = Inr bs \<Longrightarrow> utf8_decode bs = Inr s"
proof (induction s arbitrary: bs)
  case Nil
  then show ?case by (simp add: utf8_decode.simps)
next
  case (Cons c cs)
  from Cons.prems obtain b r where b: "utf8_encode_char c = Inr b" and r: "utf8_encode cs = Inr r"
    and bs: "bs = b @ r"
    by (auto simp: and_then_def split: sum.splits)
  have "utf8_decode (b @ r) = and_then (utf8_decode r) (\<lambda>s. Inr (c # s))"
    using utf8_next_encode_char [OF b, of r] utf8_encode_char_nonempty [OF b]
    by (subst utf8_decode.simps) simp
  then show ?case
    using Cons.IH [OF r] bs by (simp add: and_then_Inr)
qed

lemma utf8_encode_char_scalar:
  "scalar_value c \<Longrightarrow> \<exists>bs. utf8_encode_char c = Inr bs \<and> (\<forall>b \<in> set bs. b < 256)"
  by (auto simp: scalar_value_def utf8_encode_char_def less_mult_imp_div_less)

lemma utf8_encode_scalar:
  "list_all scalar_value s \<Longrightarrow> \<exists>bs. utf8_encode s = Inr bs \<and> (\<forall>b \<in> set bs. b < 256)"
proof (induction s)
  case Nil
  show ?case by simp
next
  case (Cons c cs)
  then obtain r where r: "utf8_encode cs = Inr r" "\<forall>b \<in> set r. b < 256" by auto
  from Cons.prems obtain b where b: "utf8_encode_char c = Inr b" "\<forall>x \<in> set b. x < 256"
    using utf8_encode_char_scalar [of c] by auto
  show ?case using r b by (auto simp: and_then_Inr)
qed

lemma utf8_encode_ascii: "\<forall>b \<in> set xs. b < 128 \<Longrightarrow> utf8_encode xs = Inr xs"
  by (induction xs) (simp_all add: utf8_encode_char_def and_then_Inr)

lemma utf8_decode_ascii: "\<forall>b \<in> set xs. b < 128 \<Longrightarrow> utf8_decode xs = Inr xs"
  using utf8_decode_encode [OF utf8_encode_ascii] by simp

section \<open>What send_message stores and returns\<close>

lemma stored_text:
  assumes "list_all scalar_value s"
  shows "\<exists>raw. utf8_encode s = Inr raw \<and> utf8_decode (b64encode raw) = Inr (b64encode raw)
           \<and> and_then (utf8_encode (b64encode raw)) (\<lambda>x. and_then (b64decode x) utf8_decode) = Inr s"
proof -
  from utf8_encode_scalar [OF assms] obtain raw
    where raw: "utf8_encode s = Inr raw" and bytes: "\<forall>b \<in> set raw. b < 256" by auto
  have "utf8_encode (b64encode raw) = Inr (b64encode raw)"
    by (rule utf8_encode_ascii [OF b64encode_ascii])
  moreover have "utf8_decode (b64encode raw) = Inr (b64encode raw)"
    by (rule utf8_decode_ascii [OF b64encode_ascii])
  moreover have "b64decode (b64encode raw) = Inr raw"
    by (rule b64decode_b64encode [OF bytes])
  moreover have "utf8_decode raw = Inr s"
    by (rule utf8_decode_encode [OF raw])
  ultimately show ?thesis
    using raw by (simp add: and_then_Inr)
qed

lemma send_message_stores:
  assumes "list_all scalar_value (in_content input)"
    and "in_chat_id input \<in> chats db"
    and "users db (in_sender_id input) = Some sender"
  shows "\<exists>db' mt stored raw.
           send_message now db input = Inr (db', mt)
           \<and> messages db' = messages db @ [stored]
           \<and> utf8_encode (in_content input) = Inr raw
           \<and> content stored = b64encode raw
           \<and> mt_content mt = in_content input
           \<and> decrypt_content stored = in_content input"
proof -
  from stored_text [OF assms(1)] obtain raw
    where raw: "utf8_encode (in_content input) = Inr raw"
      and asc: "utf8_decode (b64encode raw) = Inr (b64encode raw)"
      and rt: "and_then (utf8_encode (b64encode raw)) (\<lambda>x. and_then (b64decode x) utf8_decode)
                 = Inr (in_content input)"
    by auto
  show ?thesis
    using assms(2,3) raw asc rt
    by (simp add: send_message_def and_then_Inr Let_def decrypt_content_def)
qed

lemma decrypt_encrypt:
  assumes "list_all scalar_value (content m)"
  shows "\<exists>e. encrypt_content m = Inr e \<and> decrypt_content (m\<lparr>content := e\<rparr>) = content m"
proof -
  from stored_text [OF assms] obtain raw
    where "utf8_encode (content m) = Inr raw"
      "utf8_decode (b64encode raw) = Inr (b64encode raw)"
      "and_then (utf8_encode (b64encode raw)) (\<lambda>x. and_then (b64decode x) utf8_decode)
                 = Inr (content m)"
    by auto
  then show ?thesis
    by (simp add: encrypt_content_def decrypt_content_def and_then_Inr)
qed

lemma demo_raw: "utf8_encode [104, 233] = Inr [104, 195, 169]"
  by (simp add: utf8_encode_char_def and_then_Inr)

lemma demo_b64: "b64encode [104, 195, 169] = [97, 77, 79, 112]"
  by (simp add: b64_char_def)

lemma demo_ascii_decode: "utf8_decode [97, 77, 79, 112] = Inr [97, 77, 79, 112]"
  by (rule utf8_decode_ascii) simp

lemma demo_ascii_encode: "utf8_encode [97, 77, 79, 112] = Inr [97, 77, 79, 112]"
  by (rule utf8_encode_ascii) simp

lemma demo_b64decode: "b64decode [97, 77, 79, 112] = Inr [104, 195, 169]"
  using b64decode_b64encode [of "[104, 195, 169]"] unfolding demo_b64 by simp

lemma demo_utf8_decode: "utf8_decode [104, 195, 169] = Inr [104, 233]"
  by (rule utf8_decode_encode [OF demo_raw])

lemma demo_send:
  "send_message (ascii ''2024-01-01'') demo_db demo_input
   = Inr (demo_db\<lparr>messages := [demo_stored], next_message_pk := 2\<rparr>, demo_reply)"
proof -
  have e: "utf8_encode (in_content demo_input) = Inr [104, 195, 169]"
    by (simp add: demo_input_def demo_raw del: utf8_encode.simps)
  have d: "decrypt_content demo_stored = [104, 233]"
    by (simp add: decrypt_content_def demo_stored_def demo_ascii_encode demo_b64decode
        demo_utf8_decode and_then_Inr del: utf8_encode.simps)
  have m: "\<lparr>message_pk = next_message_pk demo_db, message_chat = in_chat_id demo_input,
             message_sender = 7, content = [97, 77, 79, 112],
             media_type = ascii ''text'', timestamp = ascii ''2024-01-01''\<rparr> = demo_stored"
    by (simp add: demo_stored_def demo_db_def demo_input_def)
  have u: "users demo_db (in_sender_id demo_input) = Some \<lparr>user_pk = 7, username = ascii ''ann''\<rparr>"
    by (simp add: demo_input_def demo_db_def)
  have c: "in_chat_id demo_input \<in> chats demo_db"
    by (simp add: demo_input_def demo_db_def)
  have t: "in_media_type demo_input = None"
    by (simp add: demo_input_def)
  show ?thesis
    unfolding send_message_def e u and_then_Inr demo_b64 demo_ascii_decode t
    using c by (simp add: Let_def m d) (simp add: demo_reply_def demo_stored_def demo_db_def)
qed

section \<open>The claims\<close>

text \<open>
  C1, as stated, fails: a \<open>start_chat\<close> envelope whose \<open>recipient_id\<close> is \<open>"a b"\<close> names the
  group \<open>user_a b\<close>, which the channel layer refuses; \<open>receive\<close> raises \<open>TypeError\<close> and
  nothing is broadcast.
\<close>

theorem receive_refused_group_name:
  "envelope spaced_frame StartChat [(''recipient_id'', JStr ''a b'')]
   \<and> receive (decodes_to (JObj spaced_frame)) no_repr consumer_A hub_AB ''frame'' = Inl TypeError"
proof -
  have e: "envelope spaced_frame StartChat [(''recipient_id'', JStr ''a b'')]"
    by (simp add: envelope_def spaced_frame_def)
  show ?thesis
    using e receive_data_envelope [OF e, of no_repr consumer_A hub_AB]
    by (simp add: receive_def decodes_to_def field_def py_str_def group_send_def invalid_user_a_b)
qed

text \<open>
  C1, amended. For every connection and every inbound envelope of a recognized kind whose
  target group has a name the channel layer accepts, \<open>receive\<close> issues exactly one
  broadcast, to the group and with the internal message of the table: \<open>start_chat\<close> to
  the recipient's user group as \<open>chat_started\<close> with \<open>chat\<close>, \<open>new_message\<close> to the chat's
  group as \<open>new_message\<close> with \<open>message\<close>, \<open>update_profile\<close> to the online group as
  \<open>profile_updated\<close> with \<open>profile\<close>, \<open>delete_chat\<close> to the chat's group as
  \<open>chat_deleted\<close> with \<open>chat_id\<close>, \<open>typing_indicator\<close> to the recipient's user group as
  \<open>user_typing\<close> with \<open>user_id\<close>, \<open>user_online\<close> and \<open>user_offline\<close> to the online group
  under their own names with \<open>user_id\<close>; the log of broadcasts grows by that one entry.
  When the layer refuses the name, \<open>receive\<close> raises \<open>TypeError\<close> and broadcasts nothing.
\<close>

theorem receive_routes_by_table:
  assumes "loads text_data = Inr (JObj kvs)" and "envelope kvs k P"
  shows "(valid_group_name (group_name rp (table_target k P)) \<longrightarrow>
            receive loads rp self h text_data
              = Inr (broadcast h (group_name rp (table_target k P)) (table_message k P))
            \<and> sent (broadcast h (group_name rp (table_target k P)) (table_message k P))
              = sent h @ [(group_name rp (table_target k P), table_message k P)])
         \<and> (\<not> valid_group_name (group_name rp (table_target k P)) \<longrightarrow>
              receive loads rp self h text_data = Inl TypeError)"
  using assms by (simp add: receive_def receive_data_envelope group_send_def broadcast_def)

theorem receive_routes_by_table_witness:
  "envelope (new_message_frame full_message) NewMessage
      [(''chat_id'', JInt 42), (''message'', JObj full_message)]
   \<and> valid_group_name ''chat_42''
   \<and> receive (decodes_to (JObj (new_message_frame full_message))) no_repr consumer_A hub_AB ''frame''
     = Inr (broadcast hub_AB ''chat_42''
              (JObj [(''type'', JStr ''new_message''), (''message'', JObj full_message)]))
   \<and> sent (broadcast hub_AB ''chat_42''
              (JObj [(''type'', JStr ''new_message''), (''message'', JObj full_message)]))
     = [(''chat_42'', JObj [(''type'', JStr ''new_message''), (''message'', JObj full_message)])]"
proof -
  have g: "group_name no_repr (table_target NewMessage [(''chat_id'', JInt 42), (''message'', JObj full_message)])
           = ''chat_42''"
    by (simp add: field_def py_str_def show_int_def show_nat.simps)
  have t: "table_message NewMessage [(''chat_id'', JInt 42), (''message'', JObj full_message)]
           = JObj [(''type'', JStr ''new_message''), (''message'', JObj full_message)]"
    by (simp add: table_message_def message_of_def full_message_def content_or_default_def)
  have s: "sent hub_AB = []"
    by (simp add: hub_AB_join join_def empty_hub_def)
  show ?thesis
    using receive_routes_by_table
            [of "decodes_to (JObj (new_message_frame full_message))" "''frame''"
                "new_message_frame full_message" NewMessage
                "[(''chat_id'', JInt 42), (''message'', JObj full_message)]"
                no_repr consumer_A hub_AB,
             OF _ envelope_new_message_frame]
          envelope_new_message_frame valid_chat_42 s
    unfolding g t
    by (simp add: decodes_to_def)
qed

text \<open>
  C2. In every state the hub can reach, when the disconnect handler of a connection
  returns, the connection's channel is a member of no group.
\<close>

theorem disconnect_leaves_no_membership:
  assumes "consumers (run loads rp evs) ch = Some c"
    and "disconnect rp c (hub_of (run loads rp evs)) code = Returned (c', h')"
  shows "joined h' ch = {}"
proof -
  let ?s = "run loads rp evs"
  have inv: "membership_inv rp ?s" by (rule membership_inv_run)
  have nm: "channel_name c = ch"
    using inv assms(1) by (auto simp: membership_inv_def)
  obtain cid where cid: "chat_id c = Some cid"
    using assms(2) by (cases "chat_id c") (auto simp: disconnect_def)
  have only: "g = ''chat_'' @ py_str rp cid \<and> py_truthy cid" if "ch \<in> groups (hub_of ?s) g" for g
  proof -
    from inv that obtain c2 cid2 where "consumers ?s ch = Some c2" "chat_id c2 = Some cid2"
      "py_truthy cid2" "g = ''chat_'' @ py_str rp cid2"
      unfolding membership_inv_def by blast
    then show ?thesis using assms(1) cid by simp
  qed
  have "ch \<notin> groups h' g" for g
  proof (cases "py_truthy cid")
    case True
    then have "h' = leave (hub_of ?s) (''chat_'' @ py_str rp cid) ch"
      using assms(2) cid nm
      by (auto simp: disconnect_def group_discard_def split: if_splits)
    then show ?thesis
      using only [of g] by (auto simp: leave_def split: if_splits)
  next
    case False
    then have "h' = hub_of ?s"
      using assms(2) cid by (simp add: disconnect_def)
    then show ?thesis using only [of g] False by auto
  qed
  then show ?thesis by (simp add: joined_def)
qed

theorem disconnect_leaves_no_membership_witness:
  "consumers (run (decodes_to (JObj (new_message_frame full_message))) no_repr session) ''A''
     = Some consumer_A
   \<and> joined (hub_of (run (decodes_to (JObj (new_message_frame full_message))) no_repr session)) ''A''
     = {''chat_42''}
   \<and> disconnect no_repr consumer_A
        (hub_of (run (decodes_to (JObj (new_message_frame full_message))) no_repr session)) 1000
     = Returned (consumer_A,
         leave (hub_of (run (decodes_to (JObj (new_message_frame full_message))) no_repr session))
           ''chat_42'' ''A'')
   \<and> joined (leave
               (hub_of (run (decodes_to (JObj (new_message_frame full_message))) no_repr session))
               ''chat_42'' ''A'') ''A'' = {}"
proof -
  let ?s = "run (decodes_to (JObj (new_message_frame full_message))) no_repr session"
  have j: "joined (hub_of ?s) ''A'' = {''chat_42''}"
    by (auto simp: joined_def run_session_groups hub_AB_join join_def empty_hub_def
        split: if_splits)
  have d: "disconnect no_repr consumer_A (hub_of ?s) 1000
           = Returned (consumer_A, leave (hub_of ?s) ''chat_42'' ''A'')"
    by (simp add: disconnect_def chat_id_consumer_A channel_name_consumer_A py_str_def
        group_discard_def valid_chat_42)
  show ?thesis
    using disconnect_leaves_no_membership [OF run_session_consumer d] run_session_consumer j d
    by simp
qed



text \<open>
  C4. An inbound envelope whose \<open>event\<close> is none of the seven recognized kinds (absent, not
  a string, or another name) is handled without any effect: \<open>receive\<close> returns normally,
  so there is no error and the connection goes on, and the hub is unchanged, so there is
  no broadcast, no queued message and no frame to any connection.
\<close>

theorem receive_unknown_event_ignored:
  assumes "loads text_data = Inr (JObj kvs)"
    and "map_of kvs ''event'' \<notin> (\<lambda>k. Some (JStr k)) ` set recognized"
  shows "receive loads rp self h text_data = Inr h"
proof -
  define ev where "ev = (case map_of kvs ''event'' of Some v \<Rightarrow> v | None \<Rightarrow> JNull)"
  have ne: "ev \<noteq> JStr k" if "k \<in> set recognized" for k
    using assms(2) that by (auto simp: ev_def split: option.splits)
  have "ev \<noteq> JStr ''start_chat''" "ev \<noteq> JStr ''new_message''" "ev \<noteq> JStr ''update_profile''"
    "ev \<noteq> JStr ''delete_chat''" "ev \<noteq> JStr ''typing_indicator''" "ev \<noteq> JStr ''user_online''"
    "ev \<noteq> JStr ''user_offline''"
    by (rule ne, simp add: recognized_def)+
  then have "receive_data rp self h (JObj kvs) = Inr h"
    unfolding receive_data_def py_get_obj and_then_Inr ev_def [symmetric] by simp
  then show ?thesis
    using assms(1) by (simp add: receive_def)
qed

theorem receive_unknown_event_ignored_witness:
  "map_of [(''event'', JStr ''ping'')] ''event'' \<notin> (\<lambda>k. Some (JStr k)) ` set recognized
   \<and> receive (decodes_to (JObj [(''event'', JStr ''ping'')])) no_repr consumer_A hub_AB ''frame''
     = Inr hub_AB"
proof -
  have ev: "map_of [(''event'', JStr ''ping'')] ''event'' \<notin> (\<lambda>k. Some (JStr k)) ` set recognized"
    by (simp add: recognized_def)
  show ?thesis
    using ev receive_unknown_event_ignored
            [of "decodes_to (JObj [(''event'', JStr ''ping'')])" "''frame''"
                "[(''event'', JStr ''ping'')]" no_repr consumer_A hub_AB, OF _ ev]
    by (simp add: decodes_to_def)
qed

text \<open>
  C5, as stated, fails: a frame of a recognized kind without a payload makes \<open>receive\<close>
  raise \<open>AttributeError\<close>, since the absent payload is \<open>None\<close> and has no \<open>get\<close>.
\<close>

theorem receive_absent_payload_raises:
  "receive (decodes_to (JObj [(''event'', JStr ''start_chat'')])) no_repr consumer_A hub_AB ''frame''
   = Inl AttributeError"
  by (simp add: receive_def decodes_to_def receive_data_def py_get_def and_then_def)

text \<open>
  C5, amended. For every inbound frame of a recognized kind: when the payload is a mapping
  (and its \<open>message\<close>, for \<open>new_message\<close>, is a mapping or missing), whatever keys the payload
  lacks, missing values are read as \<open>None\<close> and \<open>receive\<close> completes without raising, with
  the one broadcast of the table, provided the channel layer accepts the name of the
  target group, and raises \<open>TypeError\<close> when the layer refuses it; when the payload is
  absent or is not a mapping, or the \<open>message\<close> of a \<open>new_message\<close> is present and not a
  mapping, \<open>receive\<close> raises \<open>AttributeError\<close>.
\<close>

theorem receive_outcome_by_payload:
  assumes "loads text_data = Inr (JObj kvs)"
    and "map_of kvs ''event'' = Some (JStr (kind_name k))"
  shows "receive loads rp self h text_data
         = (case map_of kvs ''payload'' of
              Some (JObj P) \<Rightarrow>
                if k = NewMessage \<and> message_of P = None then Inl AttributeError
                else if valid_group_name (group_name rp (table_target k P))
                then Inr (broadcast h (group_name rp (table_target k P)) (table_message k P))
                else Inl TypeError
            | _ \<Rightarrow> Inl AttributeError)"
proof -
  have ev: "py_get (JObj kvs) ''event'' JNull = Inr (JStr (kind_name k))"
    using assms(2) by (simp add: py_get_def)
  show ?thesis
  proof (cases "\<exists>P. map_of kvs ''payload'' = Some (JObj P)")
    case True
    then obtain P where P: "map_of kvs ''payload'' = Some (JObj P)" by blast
    show ?thesis
    proof (cases "k = NewMessage \<and> message_of P = None")
      case False
      then have "envelope kvs k P"
        using assms(2) P by (auto simp: envelope_def)
      from receive_data_envelope [OF this, of rp self h] show ?thesis
        using assms(1) P False by (simp add: receive_def group_send_def)
    next
      case True
      then obtain x where x: "map_of P ''message'' = Some x" and nx: "\<forall>m. x \<noteq> JObj m"
        by (auto simp: message_of_def split: option.splits json.splits)
      have pl: "py_get (JObj kvs) ''payload'' JNull = Inr (JObj P)"
        using P by (simp add: py_get_def)
      have g: "py_get (JObj P) ''message'' (JObj []) = Inr x"
        using x by (simp add: py_get_def)
      have a: "py_get x ''content'' (JStr ''No content'') = Inl AttributeError"
        using nx by (cases x) (simp_all add: py_get_def)
      have "receive_data rp self h (JObj kvs) = Inl AttributeError"
        unfolding receive_data_def ev pl and_then_Inr using True
        by (simp add: g a and_then_Inr and_then_Inl)
      then show ?thesis
        using assms(1) P True by (simp add: receive_def)
    qed
  next
    case False
    define pv where "pv = (case map_of kvs ''payload'' of Some v \<Rightarrow> v | None \<Rightarrow> JNull)"
    have pl: "py_get (JObj kvs) ''payload'' JNull = Inr pv"
      by (simp add: py_get_def pv_def)
    have np: "py_get pv key d = Inl AttributeError" for key d
      using False by (cases pv) (auto simp: py_get_def pv_def split: option.splits)
    have "receive_data rp self h (JObj kvs) = Inl AttributeError"
      unfolding receive_data_def ev pl and_then_Inr
      by (cases k) (simp_all add: np and_then_Inl)
    moreover have "(case map_of kvs ''payload'' of
              Some (JObj P) \<Rightarrow>
                if k = NewMessage \<and> message_of P = None then Inl AttributeError
                else if valid_group_name (group_name rp (table_target k P))
                then Inr (broadcast h (group_name rp (table_target k P)) (table_message k P))
                else Inl TypeError
            | _ \<Rightarrow> Inl AttributeError) = (Inl AttributeError :: py_error + hub)"
      using False by (auto split: option.splits json.splits)
    ultimately show ?thesis
      using assms(1) by (simp add: receive_def)
  qed
qed

theorem receive_outcome_by_payload_witness:
  "receive (decodes_to (JObj [(''event'', JStr ''start_chat''), (''payload'', JObj [])]))
        no_repr consumer_A hub_AB ''frame''
     = Inr (broadcast hub_AB ''user_None'' (JObj [(''type'', JStr ''chat_started''), (''chat'', JNull)]))
   \<and> receive (decodes_to (JObj [(''event'', JStr ''start_chat''), (''payload'', JArr [])]))
        no_repr consumer_A hub_AB ''frame''
     = Inl AttributeError"
proof -
  have v: "valid_group_name ''user_None''"
    by (simp add: valid_group_name_def group_name_char_def)
  show ?thesis
    using receive_outcome_by_payload
            [of "decodes_to (JObj [(''event'', JStr ''start_chat''), (''payload'', JObj [])])"
                "''frame''" "[(''event'', JStr ''start_chat''), (''payload'', JObj [])]"
                StartChat no_repr consumer_A hub_AB]
          receive_outcome_by_payload
            [of "decodes_to (JObj [(''event'', JStr ''start_chat''), (''payload'', JArr [])])"
                "''frame''" "[(''event'', JStr ''start_chat''), (''payload'', JArr [])]"
                StartChat no_repr consumer_A hub_AB]
          v
    by (simp add: decodes_to_def table_message_def field_def py_str_def)
qed

text \<open>
  C6. For every connect attempt whose credential is missing, expired, invalid or names no
  user, the middleware does not raise, \<open>connect\<close> accepts the transport, the connection's
  \<open>user_id\<close> is \<open>None\<close>, and the hub is unchanged: the connection is joined to no group.
\<close>

theorem bad_credential_accepted_anonymous:
  assumes "bad_credential jwt_decode aget token"
  shows "\<exists>oc. on_connect jwt_decode aget rp token kw ch h = Inr oc
           \<and> accepted (fst (state_of oc))
           \<and> user_id (fst (state_of oc)) = Some JNull
           \<and> snd (state_of oc) = h
           \<and> joined (snd (state_of oc)) ch = joined h ch"
  using jwt_auth_bad [OF assms] connect_anonymous [of rp ch kw h]
  by (simp add: on_connect_def and_then_Inr)

theorem bad_credential_accepted_anonymous_witness:
  "bad_credential rejects_all no_users (Some ''stale'')
   \<and> on_connect rejects_all no_users no_repr (Some ''stale'') route42 ''C'' hub_AB
     = Inr (Returned (new_consumer ''C'' AnonymousUser route42
                        \<lparr>accepted := True, user_id := Some JNull, chat_id := Some (JStr ''42'')\<rparr>,
                      hub_AB))
   \<and> joined hub_AB ''C'' = {}"
proof -
  have b: "bad_credential rejects_all no_users (Some ''stale'')"
    by (simp add: bad_credential_def rejects_all_def)
  have j: "joined hub_AB ''C'' = {}"
    by (auto simp: joined_def hub_AB_join join_def empty_hub_def split: if_splits)
  show ?thesis
    using bad_credential_accepted_anonymous [OF b, of no_repr route42 "''C''" hub_AB] b j
    by (simp add: on_connect_def jwt_auth_def rejects_all_def and_then_Inr connect_def
        new_consumer_def route42_def Let_def)
qed

text \<open>
  C7. For every sender, whatever its identity, a \<open>user_online\<close> frame broadcasts to the
  online group a \<open>user_online\<close> message with the \<open>user_id\<close> of the payload, and two senders
  make the same broadcast.
\<close>

theorem user_online_ignores_sender:
  assumes "loads text_data = Inr (JObj kvs)"
    and "map_of kvs ''event'' = Some (JStr ''user_online'')"
    and "map_of kvs ''payload'' = Some (JObj P)"
  shows "receive loads rp c1 h text_data
           = Inr (broadcast h ''online_users''
                    (JObj [(''type'', JStr ''user_online''), (''user_id'', field P ''user_id'')]))
         \<and> receive loads rp c2 h text_data = receive loads rp c1 h text_data"
proof -
  have env: "envelope kvs UserOnline P"
    using assms by (simp add: envelope_def)
  show ?thesis
    using assms(1) receive_data_envelope [OF env, of rp c1 h] receive_data_envelope [OF env, of rp c2 h]
    by (simp add: receive_def table_message_def group_send_def valid_online_users)
qed

theorem user_online_ignores_sender_witness:
  "receive (decodes_to (JObj [(''event'', JStr ''user_online''),
                              (''payload'', JObj [(''user_id'', JInt 99)])]))
     no_repr (new_consumer ''C'' AnonymousUser route42) hub_AB ''frame''
   = Inr (broadcast hub_AB ''online_users''
            (JObj [(''type'', JStr ''user_online''), (''user_id'', JInt 99)]))
   \<and> receive (decodes_to (JObj [(''event'', JStr ''user_online''),
                                (''payload'', JObj [(''user_id'', JInt 99)])]))
       no_repr consumer_A hub_AB ''frame''
     = receive (decodes_to (JObj [(''event'', JStr ''user_online''),
                                  (''payload'', JObj [(''user_id'', JInt 99)])]))
         no_repr (new_consumer ''C'' AnonymousUser route42) hub_AB ''frame''"
  using user_online_ignores_sender
          [of "decodes_to (JObj [(''event'', JStr ''user_online''),
                                 (''payload'', JObj [(''user_id'', JInt 99)])])" "''frame''"
              "[(''event'', JStr ''user_online''), (''payload'', JObj [(''user_id'', JInt 99)])]"
              "[(''user_id'', JInt 99)]" no_repr "new_consumer ''C'' AnonymousUser route42" hub_AB
              consumer_A]
  by (simp add: decodes_to_def field_def)

text \<open>
  C8, as stated, fails: with user 7 on channel \<open>A\<close> and user 8 on channel \<open>B\<close>, both in
  \<open>chat_42\<close>, \<open>A\<close> sends \<open>new_message\<close> for chat 42 with a message that has \<open>id\<close>, \<open>sender\<close> and
  \<open>content\<close> but neither \<open>mediaType\<close> nor \<open>timestamp\<close>. The handler of \<open>B\<close> raises
  \<open>KeyError\<close> on \<open>mediaType\<close> and \<open>B\<close> gets no frame.
\<close>

theorem omitted_media_type_counterexample:
  "receive (decodes_to (JObj (new_message_frame short_message))) no_repr consumer_A hub_AB ''frame''
     = Inr (broadcast hub_AB ''chat_42''
              (JObj [(''type'', JStr ''new_message''), (''message'', JObj short_message)]))
   \<and> ''B'' \<in> groups hub_AB ''chat_42''
   \<and> deliver (broadcast hub_AB ''chat_42''
              (JObj [(''type'', JStr ''new_message''), (''message'', JObj short_message)])) ''B''
     = Raised (KeyError ''mediaType'') (broadcast hub_AB ''chat_42''
              (JObj [(''type'', JStr ''new_message''), (''message'', JObj short_message)])
              \<lparr>inbox := (inbox (broadcast hub_AB ''chat_42''
              (JObj [(''type'', JStr ''new_message''), (''message'', JObj short_message)])))(''B'' := [])\<rparr>)
   \<and> wire (state_of (deliver (broadcast hub_AB ''chat_42''
              (JObj [(''type'', JStr ''new_message''), (''message'', JObj short_message)])) ''B'')) ''B''
     = []"
proof -
  have r: "receive (decodes_to (JObj (new_message_frame short_message))) no_repr consumer_A hub_AB ''frame''
     = Inr (broadcast hub_AB ''chat_42''
              (JObj [(''type'', JStr ''new_message''), (''message'', JObj short_message)]))"
    using receive_data_envelope [OF envelope_new_message_frame, of no_repr consumer_A hub_AB short_message]
    by (simp add: receive_def decodes_to_def table_message_def message_of_def
      field_def py_str_def show_int_def show_nat.simps short_message_def content_or_default_def
      group_send_def valid_chat_42)
  have d: "dispatch (JObj [(''type'', JStr ''new_message''), (''message'', JObj short_message)])
           = Inl (KeyError ''mediaType'')"
    by (simp add: dispatch_new_message new_message_def py_getitem2_def py_getitem3_def
        py_getitem_obj and_then_Inr and_then_Inl short_message_def)
  show ?thesis
    using r d
    by (simp add: groups_hub_AB deliver_def broadcast_def inbox_hub_AB wire_hub_AB Let_def)
qed

text \<open>
  C8, amended. When a member of \<open>chat_42\<close> sends \<open>new_message\<close> with \<open>chat_id\<close> 42 and a
  message mapping that supplies \<open>id\<close>, \<open>sender\<close> with \<open>id\<close> and \<open>username\<close>, \<open>mediaType\<close> and
  \<open>timestamp\<close>, the internal message is queued at every member of \<open>chat_42\<close>, and the
  member's handler makes of it the envelope \<open>new_message\<close> whose message carries these
  values as supplied, with the supplied \<open>content\<close> or \<open>"No content"\<close>; a member whose queue
  was empty writes that envelope on its next turn.
\<close>

theorem new_message_delivered_when_complete:
  assumes "loads text_data = Inr (JObj kvs)"
    and "map_of kvs ''event'' = Some (JStr ''new_message'')"
    and "map_of kvs ''payload'' = Some (JObj P)"
    and "map_of P ''chat_id'' = Some (JInt 42)"
    and "map_of P ''message'' = Some (JObj m)"
    and "translatable m"
    and "ch \<in> groups h ''chat_42''"
  shows "\<exists>h'. receive loads rp self h text_data = Inr h'
           \<and> inbox h' ch = inbox h ch @ [table_message NewMessage P]
           \<and> dispatch (table_message NewMessage P) = Inr (outbound_new_message m)
           \<and> (inbox h ch = [] \<longrightarrow>
                deliver h' ch
                = Returned (h'\<lparr>inbox := (inbox h')(ch := []),
                               wire := (wire h')(ch := wire h ch @ [outbound_new_message m])\<rparr>))"
proof -
  have env: "envelope kvs NewMessage P"
    using assms by (simp add: envelope_def message_of_def)
  have mo: "message_of P = Some m"
    using assms(5) by (simp add: message_of_def)
  have g: "''chat_'' @ py_str rp (field P ''chat_id'') = ''chat_42''"
    using assms(4) by (simp add: field_def py_str_def show_int_def show_nat.simps)
  have r: "receive loads rp self h text_data = Inr (broadcast h ''chat_42'' (table_message NewMessage P))"
    using assms(1) receive_data_envelope [OF env, of rp self h] g
    by (simp add: receive_def group_send_def valid_chat_42)
  have d: "dispatch (table_message NewMessage P) = Inr (outbound_new_message m)"
    using mo assms(6) by (simp add: table_message_def dispatch_new_message new_message_internal)
  have q: "inbox (broadcast h ''chat_42'' (table_message NewMessage P)) ch
           = inbox h ch @ [table_message NewMessage P]"
    using assms(7) by (simp add: broadcast_def)
  have "deliver (broadcast h ''chat_42'' (table_message NewMessage P)) ch
        = Returned ((broadcast h ''chat_42'' (table_message NewMessage P))
             \<lparr>inbox := (inbox (broadcast h ''chat_42'' (table_message NewMessage P)))(ch := []),
              wire := (wire (broadcast h ''chat_42'' (table_message NewMessage P)))
                        (ch := wire h ch @ [outbound_new_message m])\<rparr>)"
    if "inbox h ch = []"
    using that assms(7) d by (simp add: deliver_def broadcast_def)
  with r d q show ?thesis by simp
qed

theorem new_message_delivered_when_complete_witness:
  "translatable full_message \<and> ''B'' \<in> groups hub_AB ''chat_42'' \<and> inbox hub_AB ''B'' = []
   \<and> receive (decodes_to (JObj (new_message_frame full_message))) no_repr consumer_A hub_AB ''frame''
     = Inr (broadcast hub_AB ''chat_42''
              (JObj [(''type'', JStr ''new_message''), (''message'', JObj full_message)]))
   \<and> wire (state_of (deliver (broadcast hub_AB ''chat_42''
              (JObj [(''type'', JStr ''new_message''), (''message'', JObj full_message)])) ''B'')) ''B''
     = [JObj [(''event'', JStr ''new_message''),
              (''payload'', JObj [(''message'', JObj full_message)])]]"
proof -
  have r: "receive (decodes_to (JObj (new_message_frame full_message))) no_repr consumer_A hub_AB ''frame''
     = Inr (broadcast hub_AB ''chat_42''
              (JObj [(''type'', JStr ''new_message''), (''message'', JObj full_message)]))"
    using receive_data_envelope [OF envelope_new_message_frame, of no_repr consumer_A hub_AB full_message]
    by (simp add: receive_def decodes_to_def table_message_def message_of_def
      field_def py_str_def show_int_def show_nat.simps full_message_def content_or_default_def
      group_send_def valid_chat_42)
  have o: "outbound_new_message full_message
           = JObj [(''event'', JStr ''new_message''),
                   (''payload'', JObj [(''message'', JObj full_message)])]"
    by (simp add: outbound_new_message_def full_message_def field_def sender_fields_def
        sender_of_def content_or_default_def)
  have b: "''B'' \<in> groups hub_AB ''chat_42''"
    by (simp add: groups_hub_AB)
  show ?thesis
    using new_message_delivered_when_complete
            [of "decodes_to (JObj (new_message_frame full_message))" "''frame''"
                "new_message_frame full_message"
                "[(''chat_id'', JInt 42), (''message'', JObj full_message)]" full_message
                "''B''" hub_AB no_repr consumer_A,
             OF _ _ _ _ _ translatable_full b]
          r o b translatable_full
    by (simp add: decodes_to_def new_message_frame_def inbox_hub_AB wire_hub_AB)
qed

text \<open>
  C9, as stated, fails: user 7 connecting on the route of chat 42 is joined to one group,
  \<open>chat_42\<close>, not to two.
\<close>

theorem connect_joins_two_groups_counterexample:
  "connect no_repr (new_consumer ''A'' (User 7) route42) empty_hub = Returned (consumer_A, hub_A)
   \<and> joined hub_A ''A'' = {''chat_42''}
   \<and> card (joined hub_A ''A'') \<noteq> 2"
  by (simp add: joined_hub_A) (simp add: consumer_A_def hub_A_def connect_route42)

text \<open>
  C9, amended. For every connect where the user is authenticated with a non-zero id and
  the route gives a true chat id: when the channel layer accepts the name
  \<open>chat_<chat_id>\<close>, \<open>connect\<close> returns and has joined the connection to exactly one more
  group, the group of that chat; when the layer refuses the name, \<open>connect\<close> raises
  \<open>TypeError\<close> after it has accepted the transport, and no group is joined.
\<close>

theorem connect_joins_one_group:
  assumes "scope_user self = User uid" and "uid \<noteq> 0"
    and "map_of (url_kwargs self) ''chat_id'' = Some cid" and "py_truthy cid"
  shows "\<exists>self'. accepted self'
           \<and> (valid_group_name (''chat_'' @ py_str rp cid) \<longrightarrow>
                connect rp self h
                  = Returned (self', join h (''chat_'' @ py_str rp cid) (channel_name self))
                \<and> joined (join h (''chat_'' @ py_str rp cid) (channel_name self)) (channel_name self)
                  = insert (''chat_'' @ py_str rp cid) (joined h (channel_name self)))
           \<and> (\<not> valid_group_name (''chat_'' @ py_str rp cid) \<longrightarrow>
                connect rp self h = Raised TypeError (self', h))"
proof -
  let ?name = "''chat_'' @ py_str rp cid"
  let ?self = "self\<lparr>accepted := True, user_id := Some (JInt uid), chat_id := Some cid,
                    chat_group_name := Some ?name\<rparr>"
  have a: "accepted ?self" by simp
  have r: "connect rp self h = Returned (?self, join h ?name (channel_name self))"
    if "valid_group_name ?name"
    using that assms by (simp add: connect_def Let_def group_add_def)
  have x: "connect rp self h = Raised TypeError (?self, h)" if "\<not> valid_group_name ?name"
    using that assms by (simp add: connect_def Let_def group_add_def)
  have j: "joined (join h ?name (channel_name self)) (channel_name self)
           = insert ?name (joined h (channel_name self))"
    by (auto simp: joined_def join_def)
  from a r x j show ?thesis by blast
qed

theorem connect_joins_one_group_witness:
  "connect no_repr (new_consumer ''A'' (User 7) route42) empty_hub = Returned (consumer_A, hub_A)
   \<and> valid_group_name ''chat_42''
   \<and> joined empty_hub ''A'' = {}
   \<and> joined hub_A ''A'' = {''chat_42''}"
proof -
  have s: "scope_user (new_consumer ''A'' (User 7) route42) = User 7"
    and k: "map_of (url_kwargs (new_consumer ''A'' (User 7) route42)) ''chat_id'' = Some (JStr ''42'')"
    by (simp_all add: new_consumer_def route42_def)
  have e: "joined empty_hub ''A'' = {}"
    by (simp add: joined_def empty_hub_def)
  have c: "connect no_repr (new_consumer ''A'' (User 7) route42) empty_hub = Returned (consumer_A, hub_A)"
    by (simp add: consumer_A_def hub_A_def connect_route42)
  show ?thesis
    using connect_joins_one_group [OF s _ k, of no_repr empty_hub] e c valid_chat_42 hub_A_join
    by (auto simp: py_str_def new_consumer_def)
qed

text \<open>
  C10, as stated, fails: for a content that is one lone surrogate, which the resolver can
  receive, \<open>encode\<close> raises \<open>UnicodeEncodeError\<close> although chat and sender exist; nothing is
  stored and no \<open>MessageType\<close> is returned.
\<close>

theorem send_message_lone_surrogate:
  "in_chat_id demo_input \<in> chats demo_db
   \<and> users demo_db (in_sender_id demo_input) = Some \<lparr>user_pk = 7, username = ascii ''ann''\<rparr>
   \<and> send_message (ascii ''2024-01-01'') demo_db (demo_input\<lparr>in_content := [55296]\<rparr>)
     = Inl UnicodeEncodeError"
  by (simp add: send_message_def demo_db_def demo_input_def utf8_encode_char_def and_then_def)

text \<open>
  C10, amended. For every content that is Unicode text (no lone surrogate), a chat and a
  sender that exist, \<open>send_message\<close> returns; it has stored one new message whose content
  is the Base64 encoding of the UTF-8 bytes of the input, the \<open>MessageType\<close> it returns has
  the input as content, and \<open>decrypt_content\<close> of the stored message is the input again.
  \<open>decrypt_content\<close> after \<open>encrypt_content\<close> gives back the content of any message that is
  Unicode text.
\<close>

theorem send_message_round_trip:
  assumes "list_all scalar_value (in_content input)"
    and "in_chat_id input \<in> chats db"
    and "users db (in_sender_id input) = Some sender"
    and "list_all scalar_value (content m)"
  shows "(\<exists>db' mt stored raw.
            send_message now db input = Inr (db', mt)
            \<and> messages db' = messages db @ [stored]
            \<and> utf8_encode (in_content input) = Inr raw
            \<and> content stored = b64encode raw
            \<and> mt_content mt = in_content input
            \<and> decrypt_content stored = in_content input)
         \<and> (\<exists>e. encrypt_content m = Inr e \<and> decrypt_content (m\<lparr>content := e\<rparr>) = content m)"
  using send_message_stores [OF assms(1,2,3)] decrypt_encrypt [OF assms(4)] by simp

theorem send_message_round_trip_witness:
  "list_all scalar_value (in_content demo_input)
   \<and> in_chat_id demo_input \<in> chats demo_db
   \<and> utf8_encode (in_content demo_input) = Inr [104, 195, 169]
   \<and> b64encode [104, 195, 169] = content demo_stored
   \<and> send_message (ascii ''2024-01-01'') demo_db demo_input
     = Inr (demo_db\<lparr>messages := [demo_stored], next_message_pk := 2\<rparr>, demo_reply)
   \<and> mt_content demo_reply = in_content demo_input
   \<and> decrypt_content demo_stored = in_content demo_input"
proof -
  have s: "list_all scalar_value (in_content demo_input)"
    by (simp add: demo_input_def scalar_value_def)
  have c: "in_chat_id demo_input \<in> chats demo_db"
    by (simp add: demo_input_def demo_db_def)
  have u: "users demo_db (in_sender_id demo_input) = Some \<lparr>user_pk = 7, username = ascii ''ann''\<rparr>"
    by (simp add: demo_input_def demo_db_def)
  have e: "utf8_encode (in_content demo_input) = Inr [104, 195, 169]"
    by (simp add: demo_input_def demo_raw del: utf8_encode.simps)
  have b: "b64encode [104, 195, 169] = content demo_stored"
    by (simp add: demo_b64 demo_stored_def del: b64encode.simps)
  have m: "list_all scalar_value (content (demo_stored\<lparr>content := in_content demo_input\<rparr>))"
    using s by simp
  from send_message_round_trip [OF s c u m, of "ascii ''2024-01-01''"]
  obtain db' mt stored where r: "send_message (ascii ''2024-01-01'') demo_db demo_input = Inr (db', mt)"
    and ms: "messages db' = messages demo_db @ [stored]"
    and mc: "mt_content mt = in_content demo_input"
    and dc: "decrypt_content stored = in_content demo_input"
    by (simp add: demo_input_def) blast
  from r have "db' = demo_db\<lparr>messages := [demo_stored], next_message_pk := 2\<rparr>"
    and "mt = demo_reply"
    unfolding demo_send by simp_all
  with ms have "stored = demo_stored" and "mt = demo_reply"
    by (simp_all add: demo_db_def)
  with mc dc s c e b show ?thesis
    by (simp add: demo_send)
qed

end
